theory Spec2Isabelle
  imports Complex_Main "HOL-Library.Char_ord" "HOL-Library.List_Lexorder"
begin

section \<open>Tables of the data provider\<close>

text \<open>
  The scripts work on pandas tables.  A table with a fixed set of columns is a list of
  records, one record per table row and one field per column.  A cell that pandas
  shows as NaN / None is \<open>None\<close>.  Numbers are pandas \<open>float64\<close> cells, read as
  reals; a lap time is read as a number of seconds.

  \<open>session_result\<close> is a row of \<open>session.results\<close> of the provider, with the columns
  the scripts read.  A loaded session gives its results, its event name and its date.
\<close>

record session_result =
  Position :: "real option"
  Abbreviation :: string
  TeamName :: "string option"
  Q1 :: "real option"
  Q2 :: "real option"
  Q3 :: "real option"
  Points :: "real option"
  Status :: "string option"

record session =
  results :: "session_result list"
  EventName :: string
  date :: string

text \<open>
  \<open>fastf1.get_session(year, race_name, kind)\<close> followed by \<open>load()\<close> either gives the
  loaded session or raises.  The provider is outside the repository: it is a parameter
  of every function that calls it.
\<close>

datatype py_exception = Exception string | TypeError | ValueError | IndexError

type_synonym provider = "int \<Rightarrow> string \<Rightarrow> string \<Rightarrow> py_exception + session"

text \<open>The dictionary \<open>race_info\<close> and the dictionary returned by \<open>collect_race_data\<close>.\<close>

record race_info =
  info_year :: int
  info_race :: string
  info_event_name :: string
  info_date :: string

record race_data =
  race_results :: "session_result list"
  quali_results :: "session_result list"
  race_info :: race_info

section \<open>The pandas operations used by the scripts\<close>

text \<open>
  \<open>Series.fillna(other)\<close> for two columns of the same table: a null cell takes the
  cell of \<open>other\<close> in the same row.
\<close>

definition fillna :: "'a option list \<Rightarrow> 'a option list \<Rightarrow> 'a option list" where
  "fillna s other = map (\<lambda>(a, b). case a of None \<Rightarrow> b | Some v \<Rightarrow> Some v) (zip s other)"

text \<open>Arithmetic on cells: the result is null as soon as one operand is null.\<close>

definition series_sub :: "real option \<Rightarrow> real option \<Rightarrow> real option" where
  "series_sub a b =
     (case a of None \<Rightarrow> None | Some x \<Rightarrow> (case b of None \<Rightarrow> None | Some y \<Rightarrow> Some (x - y)))"

text \<open>The non-null cells of a column, and the rows in which two columns are both non-null.\<close>

definition notna_values :: "'a option list \<Rightarrow> 'a list" where
  "notna_values s = concat (map (\<lambda>c. case c of None \<Rightarrow> [] | Some v \<Rightarrow> [v]) s)"

definition complete_pairs :: "real option list \<Rightarrow> real option list \<Rightarrow> (real \<times> real) list" where
  "complete_pairs a b =
     concat (map (\<lambda>(x, y). case x of None \<Rightarrow> []
                             | Some u \<Rightarrow> (case y of None \<Rightarrow> [] | Some v \<Rightarrow> [(u, v)])) (zip a b))"

text \<open>
  \<open>Series.mean()\<close>, \<open>Series.std()\<close>, \<open>Series.min()\<close> and \<open>Series.max()\<close> skip the null
  cells and are NaN when too few cells are left; \<open>std\<close> divides by \<open>n - 1\<close>.
\<close>

definition mean :: "real list \<Rightarrow> real" where
  "mean xs = sum_list xs / real (length xs)"

definition series_mean :: "real option list \<Rightarrow> real option" where
  "series_mean s = (let xs = notna_values s in if xs = [] then None else Some (mean xs))"

definition series_std :: "real option list \<Rightarrow> real option" where
  "series_std s =
     (let xs = notna_values s in
      if length xs < 2 then None
      else Some (sqrt (sum_list (map (\<lambda>x. (x - mean xs) ^ 2) xs) / (real (length xs) - 1))))"

definition series_min :: "real option list \<Rightarrow> real option" where
  "series_min s = (let xs = notna_values s in if xs = [] then None else Some (Min (set xs)))"

definition series_max :: "real option list \<Rightarrow> real option" where
  "series_max s = (let xs = notna_values s in if xs = [] then None else Some (Max (set xs)))"

text \<open>
  \<open>Series.corr(other)\<close> is the Pearson coefficient of the rows in which both cells are
  non-null.  pandas hands these rows to \<open>numpy.corrcoef\<close>, which divides the covariance
  (normalised by \<open>n - 1\<close>) by the two standard deviations; the result is NaN for fewer
  than two rows or when a column is constant.
\<close>

definition np_cov :: "real list \<Rightarrow> real list \<Rightarrow> real" where
  "np_cov xs ys =
     sum_list (map (\<lambda>(x, y). (x - mean xs) * (y - mean ys)) (zip xs ys)) / (real (length xs) - 1)"

definition np_corrcoef :: "(real \<times> real) list \<Rightarrow> real option" where
  "np_corrcoef ps =
     (let xs = map fst ps; ys = map snd ps in
      if length ps < 2 \<or> np_cov xs xs = 0 \<or> np_cov ys ys = 0 then None
      else Some (np_cov xs ys / sqrt (np_cov xs xs) / sqrt (np_cov ys ys)))"

definition series_corr :: "real option list \<Rightarrow> real option list \<Rightarrow> real option" where
  "series_corr a b =
     (let ps = complete_pairs a b in if length ps < 1 then None else np_corrcoef ps)"

section \<open>data\_collection.py\<close>

subsection \<open>collect\_race\_data\<close>

text \<open>
  The whole body is inside \<open>try\<close>; \<open>except Exception\<close> prints the error and returns
  \<open>None\<close>.  The race session is loaded first, then the qualifying session.
\<close>

definition collect_race_data :: "provider \<Rightarrow> int \<Rightarrow> string \<Rightarrow> race_data option" where
  "collect_race_data get_session yr race_name =
     (case get_session yr race_name ''R'' of
        Inl e \<Rightarrow> None
      | Inr race_session \<Rightarrow>
          (case get_session yr race_name ''Q'' of
             Inl e \<Rightarrow> None
           | Inr quali \<Rightarrow>
               Some \<lparr>race_results = results race_session,
                     quali_results = results quali,
                     race_info = \<lparr>info_year = yr, info_race = race_name,
                                  info_event_name = EventName race_session,
                                  info_date = date race_session\<rparr>\<rparr>))"

subsection \<open>create\_combined\_dataframe\<close>

text \<open>
  \<open>quali_df\<close>: the columns Position, Abbreviation, TeamName of the qualifying results,
  and the new column \<open>quali_time\<close>.
\<close>

record quali_df_row =
  qd_Position :: "real option"
  qd_Abbreviation :: string
  qd_TeamName :: "string option"
  qd_quali_time :: "real option"

text \<open>\<open>race_df\<close>: the columns Position, Abbreviation, Points, Status of the race results.\<close>

record race_df_row =
  rd_Position :: "real option"
  rd_Abbreviation :: string
  rd_Points :: "real option"
  rd_Status :: "string option"

text \<open>
  The column \<open>quali_time\<close> is
  \<open>quali_results['Q3'].fillna(quali_results['Q2'].fillna(quali_results['Q1']))\<close>.
\<close>

definition quali_time_column :: "session_result list \<Rightarrow> real option list" where
  "quali_time_column qs = fillna (map Q3 qs) (fillna (map Q2 qs) (map Q1 qs))"

definition make_quali_df :: "session_result list \<Rightarrow> quali_df_row list" where
  "make_quali_df qs =
     map (\<lambda>(q, t). \<lparr>qd_Position = Position q, qd_Abbreviation = Abbreviation q,
                     qd_TeamName = TeamName q, qd_quali_time = t\<rparr>)
         (zip qs (quali_time_column qs))"

definition make_race_df :: "session_result list \<Rightarrow> race_df_row list" where
  "make_race_df rs =
     map (\<lambda>r. \<lparr>rd_Position = Position r, rd_Abbreviation = Abbreviation r,
                rd_Points = Points r, rd_Status = Status r\<rparr>) rs"

text \<open>
  The row of \<open>pd.merge(quali_df, race_df, on='Abbreviation', how='outer')\<close>.  Both
  tables have a column Position, so pandas names them \<open>Position_x\<close> and
  \<open>Position_y\<close>; the next statement of the script overwrites the seven column names
  with quali\_position, driver, team, quali\_time, race\_position, points, status, and
  the record carries these final names.
\<close>

record merged_row =
  m_quali_position :: "real option"
  m_driver :: string
  m_team :: "string option"
  m_quali_time :: "real option"
  m_race_position :: "real option"
  m_points :: "real option"
  m_status :: "string option"

definition both_sides :: "quali_df_row \<Rightarrow> race_df_row \<Rightarrow> merged_row" where
  "both_sides l r =
     \<lparr>m_quali_position = qd_Position l, m_driver = qd_Abbreviation l, m_team = qd_TeamName l,
      m_quali_time = qd_quali_time l, m_race_position = rd_Position r,
      m_points = rd_Points r, m_status = rd_Status r\<rparr>"

definition left_only :: "quali_df_row \<Rightarrow> merged_row" where
  "left_only l =
     \<lparr>m_quali_position = qd_Position l, m_driver = qd_Abbreviation l, m_team = qd_TeamName l,
      m_quali_time = qd_quali_time l, m_race_position = None, m_points = None, m_status = None\<rparr>"

definition right_only :: "race_df_row \<Rightarrow> merged_row" where
  "right_only r =
     \<lparr>m_quali_position = None, m_driver = rd_Abbreviation r, m_team = None,
      m_quali_time = None, m_race_position = rd_Position r,
      m_points = rd_Points r, m_status = rd_Status r\<rparr>"

text \<open>
  The outer join of pandas: every left row is paired with each right row of the same
  key, or filled with nulls when there is none; the right rows whose key is in no left
  row follow, filled with nulls on the left.  An outer join orders its result by the
  join key.
\<close>

definition left_part :: "quali_df_row list \<Rightarrow> race_df_row list \<Rightarrow> merged_row list" where
  "left_part left right =
     concat (map (\<lambda>l. case filter (\<lambda>r. rd_Abbreviation r = qd_Abbreviation l) right of
                          [] \<Rightarrow> [left_only l]
                        | m # ms \<Rightarrow> map (both_sides l) (m # ms)) left)"

definition right_part :: "quali_df_row list \<Rightarrow> race_df_row list \<Rightarrow> merged_row list" where
  "right_part left right =
     map right_only (filter (\<lambda>r. rd_Abbreviation r \<notin> set (map qd_Abbreviation left)) right)"

definition merge_outer :: "quali_df_row list \<Rightarrow> race_df_row list \<Rightarrow> merged_row list" where
  "merge_outer left right = sort_key m_driver (left_part left right @ right_part left right)"

text \<open>The table returned by \<open>create_combined_dataframe\<close>: eleven columns.\<close>

record combined_row =
  quali_position :: "real option"
  driver :: string
  team :: "string option"
  quali_time :: "real option"
  race_position :: "real option"
  points :: "real option"
  status :: "string option"
  position_change :: "real option"
  year :: int
  race :: string
  event_name :: string

text \<open>
  The statements after the merge: \<open>position_change\<close> is
  \<open>combined['race_position'] - combined['quali_position']\<close>, and the columns year,
  race and event\_name take the entries of \<open>race_info\<close>.
\<close>

definition add_columns :: "race_info \<Rightarrow> merged_row \<Rightarrow> combined_row" where
  "add_columns info m =
     \<lparr>quali_position = m_quali_position m, driver = m_driver m, team = m_team m,
      quali_time = m_quali_time m, race_position = m_race_position m,
      points = m_points m, status = m_status m,
      position_change = series_sub (m_race_position m) (m_quali_position m),
      year = info_year info, race = info_race info, event_name = info_event_name info\<rparr>"

text \<open>
  \<open>create_combined_dataframe(race_data)\<close>.  The argument is the result of
  \<open>collect_race_data\<close>, which is \<open>None\<close> after a failure; then the function returns
  \<open>None\<close>.
\<close>

definition create_combined_dataframe :: "race_data option \<Rightarrow> combined_row list option" where
  "create_combined_dataframe rdo =
     (case rdo of
        None \<Rightarrow> None
      | Some rd \<Rightarrow>
          Some (map (add_columns (race_info rd))
                    (merge_outer (make_quali_df (quali_results rd)) (make_race_df (race_results rd)))))"

subsection \<open>analyze\_qualifying\_performance\<close>

text \<open>
  The dictionary \<open>stats\<close>.  The function works on any table that has the columns of
  \<open>create_combined_dataframe\<close>, also one with further columns.
\<close>

record stats =
  correlation :: "real option"
  r_squared :: "real option"
  sample_size :: nat
  mean_position_change :: "real option"
  std_position_change :: "real option"

definition dropna_positions :: "'a combined_row_scheme list \<Rightarrow> 'a combined_row_scheme list" where
  "dropna_positions df = filter (\<lambda>r. quali_position r \<noteq> None \<and> race_position r \<noteq> None) df"

definition analyze_qualifying_performance ::
  "'a combined_row_scheme list \<Rightarrow> stats option \<times> 'a combined_row_scheme list option" where
  "analyze_qualifying_performance df =
     (let clean_df = dropna_positions df in
      if length clean_df = 0 then (None, None)
      else
        let corr = series_corr (map quali_position clean_df) (map race_position clean_df) in
        (Some \<lparr>correlation = corr,
               r_squared = map_option (\<lambda>c. c ^ 2) corr,
               sample_size = length clean_df,
               mean_position_change = series_mean (map position_change clean_df),
               std_position_change = series_std (map position_change clean_df)\<rparr>,
         Some clean_df))"

section \<open>day3\_advanced\_analysis.py\<close>

subsection \<open>collect\_full\_season\_data\<close>

text \<open>The table of the day-3 data set has one more column, \<open>weather_condition\<close>.\<close>

record weather_row = combined_row +
  weather_condition :: string

definition set_weather :: "string \<Rightarrow> combined_row \<Rightarrow> weather_row" where
  "set_weather weather r = combined_row.extend r (weather_row.fields weather)"

definition races_2024 :: "(string \<times> string) list" where
  "races_2024 =
     [(''Bahrain'', ''Dry''), (''Saudi Arabia'', ''Dry''), (''Australia'', ''Dry''),
      (''Japan'', ''Wet''), (''China'', ''Dry''), (''Miami'', ''Dry''), (''Imola'', ''Mixed''),
      (''Monaco'', ''Dry''), (''Canada'', ''Dry''), (''Spain'', ''Dry'')]"

text \<open>
  The \<open>for\<close> loop over the list of races, with the list \<open>all_race_data\<close> of the tables
  collected so far.  An event whose data is \<open>None\<close> is reported and left out; the loop
  goes on with the next event.
\<close>

fun collect_loop :: "provider \<Rightarrow> (string \<times> string) list \<Rightarrow> weather_row list list \<Rightarrow> weather_row list list" where
  "collect_loop get_session [] all_race_data = all_race_data"
| "collect_loop get_session ((race_name, weather) # rest) all_race_data =
     (case collect_race_data get_session 2024 race_name of
        None \<Rightarrow> collect_loop get_session rest all_race_data
      | Some rd \<Rightarrow>
          (case create_combined_dataframe (Some rd) of
             None \<Rightarrow> collect_loop get_session rest all_race_data
           | Some df \<Rightarrow>
               collect_loop get_session rest (all_race_data @ [map (set_weather weather) df])))"

text \<open>
  After the loop: \<open>pd.concat(all_race_data, ignore_index=True)\<close> when at least one table
  was collected, \<open>None\<close> otherwise.  \<open>collect_season\<close> is the function with the list of
  races as an argument; the script calls it on \<open>races_2024\<close>.
\<close>

definition collect_season :: "provider \<Rightarrow> (string \<times> string) list \<Rightarrow> weather_row list option" where
  "collect_season get_session races =
     (let all_race_data = collect_loop get_session races [] in
      if all_race_data \<noteq> [] then Some (concat all_race_data) else None)"

definition collect_full_season_data :: "provider \<Rightarrow> weather_row list option" where
  "collect_full_season_data get_session = collect_season get_session races_2024"

subsection \<open>The team averages of analyze\_qualifying\_performance\<close>

text \<open>
  \<open>df.groupby('team')['quali_position'].mean()\<close>: one entry per non-null team name, in
  the order of the names, with the mean of the non-null qualifying positions of the rows
  of that team.
\<close>

definition groupby_team_mean :: "'a combined_row_scheme list \<Rightarrow> (string \<times> real option) list" where
  "groupby_team_mean df =
     map (\<lambda>t. (t, series_mean (map quali_position (filter (\<lambda>r. team r = Some t) df))))
         (sort (remdups (notna_values (map team df))))"

text \<open>\<open>sort_values()\<close>: ascending by the value, the NaN entries last.\<close>

definition sort_values :: "(string \<times> real option) list \<Rightarrow> (string \<times> real option) list" where
  "sort_values s =
     sort_key (\<lambda>p. the (snd p)) (filter (\<lambda>p. snd p \<noteq> None) s) @ filter (\<lambda>p. snd p = None) s"

definition team_performance :: "'a combined_row_scheme list \<Rightarrow> (string \<times> real option) list" where
  "team_performance df = sort_values (groupby_team_mean df)"

section \<open>fastf1\_collector.py\<close>

text \<open>
  The expression printed by \<open>explore_race_session_data\<close> for a row \<open>driver\<close> of the
  qualifying results: \<open>Q3 if notna(Q3) else Q2 if notna(Q2) else Q1\<close>.
\<close>

definition displayed_quali_time :: "session_result \<Rightarrow> real option" where
  "displayed_quali_time driver_row =
     (if Q3 driver_row \<noteq> None then Q3 driver_row
      else if Q2 driver_row \<noteq> None then Q2 driver_row
      else Q1 driver_row)"

text \<open>
  The table \<open>comparison\<close> of \<open>analyze_sample_data\<close>: the inner join of the columns
  (Position, Abbreviation) of the two sessions on the driver, and the column
  \<open>PositionChange = QualiPos - RacePos\<close>.  The function returns at once when a session
  is \<open>None\<close>.
\<close>

record comparison_row =
  QualiPos :: "real option"
  Driver :: string
  RacePos :: "real option"
  PositionChange :: "real option"

definition merge_inner :: "session_result list \<Rightarrow> session_result list \<Rightarrow> (session_result \<times> session_result) list" where
  "merge_inner quali race_rs =
     concat (map (\<lambda>q. map (\<lambda>r. (q, r)) (filter (\<lambda>r. Abbreviation r = Abbreviation q) race_rs)) quali)"

definition analyze_sample_data :: "session option \<Rightarrow> session option \<Rightarrow> comparison_row list option" where
  "analyze_sample_data qualifying race_session =
     (case qualifying of
        None \<Rightarrow> None
      | Some q \<Rightarrow>
          (case race_session of
             None \<Rightarrow> None
           | Some r \<Rightarrow>
               Some (map (\<lambda>(qr, rr). \<lparr>QualiPos = Position qr, Driver = Abbreviation qr,
                                       RacePos = Position rr,
                                       PositionChange = series_sub (Position qr) (Position rr)\<rparr>)
                         (merge_inner (results q) (results r)))))"

section \<open>f1\_dashboard.py\<close>

subsection \<open>Tables read from a file\<close>

text \<open>
  The dashboard reads its table from a CSV file, so the columns are whatever the file
  has.  A table is the list of its column names and the list of its rows; a row gives a
  cell for a column name.  A cell is null, a number or a string.
\<close>

datatype cell = NaN | Num real | Str string

record frame =
  columns :: "string list"
  rows :: "(string \<times> cell) list list"

definition cell_of :: "(string \<times> cell) list \<Rightarrow> string \<Rightarrow> cell" where
  "cell_of row c = (case map_of row c of None \<Rightarrow> NaN | Some v \<Rightarrow> v)"

text \<open>\<open>df[c]\<close>, \<open>df.empty\<close> and \<open>df.dropna(subset=cs)\<close>.\<close>

definition column :: "frame \<Rightarrow> string \<Rightarrow> cell list" where
  "column df c = map (\<lambda>row. cell_of row c) (rows df)"

definition frame_empty :: "frame \<Rightarrow> bool" where
  "frame_empty df = (rows df = [] \<or> columns df = [])"

definition dropna :: "string list \<Rightarrow> frame \<Rightarrow> frame" where
  "dropna cs df = df\<lparr>rows := filter (\<lambda>row. list_all (\<lambda>c. cell_of row c \<noteq> NaN) cs) (rows df)\<rparr>"

text \<open>
  Arithmetic and statistics need numeric columns: a string cell makes pandas raise.
\<close>

fun is_Str :: "cell \<Rightarrow> bool" where
  "is_Str (Str s) = True"
| "is_Str c = False"

fun num_of :: "cell \<Rightarrow> real option" where
  "num_of (Num r) = Some r"
| "num_of c = None"

definition to_numeric :: "cell list \<Rightarrow> py_exception + real option list" where
  "to_numeric s = (if list_ex is_Str s then Inl TypeError else Inr (map num_of s))"

subsection \<open>String operations of Python\<close>

text \<open>\<open>s.lower()\<close> on ASCII letters, and the test \<open>sub in s\<close>.\<close>

definition py_lower :: "string \<Rightarrow> string" where
  "py_lower s =
     map (\<lambda>c. if CHR ''A'' \<le> c \<and> c \<le> CHR ''Z'' then char_of (of_char c + (32::nat)) else c) s"

fun starts_with :: "string \<Rightarrow> string \<Rightarrow> bool" where
  "starts_with s [] = True"
| "starts_with [] (p # ps) = False"
| "starts_with (c # cs) (p # ps) = (c = p \<and> starts_with cs ps)"

fun str_contains :: "string \<Rightarrow> string \<Rightarrow> bool" where
  "str_contains [] sub = (sub = [])"
| "str_contains (c # cs) sub = (starts_with (c # cs) sub \<or> str_contains cs sub)"

text \<open>
  \<open>s.split()\<close> cuts at runs of white space and gives no empty piece;
  \<open>s.split(':')\<close> cuts at every colon and keeps the empty pieces.  White space is
  the ASCII white space of Python, the codes 9 to 13 and 28 to 32.
\<close>

definition is_space :: "char \<Rightarrow> bool" where
  "is_space c = (let n = (of_char c :: nat) in (9 \<le> n \<and> n \<le> 13) \<or> (28 \<le> n \<and> n \<le> 32))"

fun split_ws :: "string \<Rightarrow> string \<Rightarrow> string list" where
  "split_ws [] cur = (if cur = [] then [] else [cur])"
| "split_ws (c # cs) cur =
     (if is_space c then (if cur = [] then split_ws cs [] else cur # split_ws cs [])
      else split_ws cs (cur @ [c]))"

definition py_split :: "string \<Rightarrow> string list" where
  "py_split s = split_ws s []"

fun split_on :: "char \<Rightarrow> string \<Rightarrow> string \<Rightarrow> string list" where
  "split_on d [] cur = [cur]"
| "split_on d (c # cs) cur = (if c = d then cur # split_on d cs [] else split_on d cs (cur @ [c]))"

definition py_split_on :: "char \<Rightarrow> string \<Rightarrow> string list" where
  "py_split_on d s = split_on d s []"

subsection \<open>calculate\_metrics\<close>

definition pos_cols :: "frame \<Rightarrow> string list" where
  "pos_cols df = filter (\<lambda>col. str_contains (py_lower col) ''position'') (columns df)"

definition team_cols :: "frame \<Rightarrow> string list" where
  "team_cols df = filter (\<lambda>col. str_contains (py_lower col) ''team'') (columns df)"

text \<open>
  The dictionary \<open>metrics\<close> is a map from the key to the number stored, NaN being
  \<open>None\<close>.  \<open>position_metrics\<close> is the block under \<open>if len(pos_cols) >= 2\<close>.
\<close>

definition position_metrics :: "frame \<Rightarrow> (string \<rightharpoonup> real option) \<Rightarrow> py_exception + (string \<rightharpoonup> real option)" where
  "position_metrics df metrics =
     (let qual_pos = pos_cols df ! 0; race_pos = pos_cols df ! 1 in
      case to_numeric (column df qual_pos) of
        Inl e \<Rightarrow> Inl e
      | Inr qs \<Rightarrow>
          (case to_numeric (column df race_pos) of
             Inl e \<Rightarrow> Inl e
           | Inr rs \<Rightarrow>
               let corr = series_corr qs rs;
                   pos_changes = map (\<lambda>(r, q). series_sub r q) (zip rs qs)
               in Inr (metrics(''qualifying_correlation'' \<mapsto> corr,
                               ''r_squared'' \<mapsto> map_option (\<lambda>c. c ^ 2) corr,
                               ''avg_position_change'' \<mapsto> series_mean pos_changes,
                               ''biggest_gain'' \<mapsto> series_min pos_changes,
                               ''biggest_loss'' \<mapsto> series_max pos_changes))))"

definition calculate_metrics :: "frame option \<Rightarrow> py_exception + (string \<rightharpoonup> real option)" where
  "calculate_metrics dfo =
     (case dfo of
        None \<Rightarrow> Inr Map.empty
      | Some df \<Rightarrow>
          if frame_empty df then Inr Map.empty
          else
            (case (if length (pos_cols df) \<ge> 2 then position_metrics df Map.empty
                   else Inr Map.empty) of
               Inl e \<Rightarrow> Inl e
             | Inr metrics \<Rightarrow>
                 let metrics' =
                       (if team_cols df \<noteq> []
                        then metrics(''total_teams'' \<mapsto>
                               Some (real (length (remdups (filter (\<lambda>c. c \<noteq> NaN)
                                                        (column df (team_cols df ! 0)))))))
                        else metrics)
                 in Inr (metrics'(''total_records'' \<mapsto> Some (real (length (rows df)))))))"

subsection \<open>The chart functions\<close>

text \<open>
  A chart function may show warnings on the page (\<open>st.warning\<close>) and returns a figure
  or \<open>None\<close>, unless an exception leaves it.  A figure is described by the data it
  plots.
\<close>

datatype figure =
    Scatter "(real \<times> cell) list"
  | Histogram "real option list"
  | Box "(cell \<times> cell) list"

record chart_result =
  warnings :: "string list"
  returned :: "py_exception + figure option"

text \<open>
  \<open>float(x)\<close>: a number is returned as it is.  The conversion of a string is the
  built-in parser of Python, a parameter \<open>pyfloat\<close> here, which is \<open>None\<close> where Python
  raises \<open>ValueError\<close>.  A null cell gives no number: \<open>float(None)\<close> raises, and
  a NaN stays a null cell of the column.
\<close>

fun py_float :: "(string \<Rightarrow> real option) \<Rightarrow> cell \<Rightarrow> py_exception + real" where
  "py_float pyfloat (Num r) = Inr r"
| "py_float pyfloat (Str s) = (case pyfloat s of None \<Rightarrow> Inl ValueError | Some r \<Rightarrow> Inr r)"
| "py_float pyfloat NaN = Inl TypeError"

text \<open>
  The body of the local function \<open>time_to_seconds\<close>, inside its \<open>try\<close>.  The text of
  a number never contains \<open>days\<close>, so only a string takes the first branch.
  \<open>parts[-1]\<close> raises on an empty list.
\<close>

definition time_to_seconds_body :: "(string \<Rightarrow> real option) \<Rightarrow> cell \<Rightarrow> py_exception + real" where
  "time_to_seconds_body pyfloat time_str =
     (case time_str of
        Str s \<Rightarrow>
          if str_contains s ''days'' then
            (let parts = py_split s in
             if parts = [] then Inl IndexError
             else
               let time_part = last parts;
                   time_bits = py_split_on CHR '':'' time_part
               in if length time_bits = 3 then
                    (case pyfloat (time_bits ! 1) of
                       None \<Rightarrow> Inl ValueError
                     | Some mins \<Rightarrow>
                         (case pyfloat (time_bits ! 2) of
                            None \<Rightarrow> Inl ValueError
                          | Some secs \<Rightarrow> Inr (mins * 60 + secs)))
                  else py_float pyfloat time_str)
          else py_float pyfloat time_str
      | _ \<Rightarrow> py_float pyfloat time_str)"

text \<open>\<open>try: ... except: return None\<close>.\<close>

definition time_to_seconds :: "(string \<Rightarrow> real option) \<Rightarrow> cell \<Rightarrow> real option" where
  "time_to_seconds pyfloat time_str =
     (case time_to_seconds_body pyfloat time_str of Inl e \<Rightarrow> None | Inr v \<Rightarrow> Some v)"

text \<open>
  \<open>create_qualifying_chart\<close>.  The column \<open>quali_seconds\<close> is the conversion of
  \<open>quali_time\<close>; the rows in which it is null are dropped.  \<open>px.scatter\<close> is given the
  columns driver, team and quali\_time as hover data and raises when the table has no
  column of such a name.
\<close>

definition quali_seconds :: "(string \<Rightarrow> real option) \<Rightarrow> frame \<Rightarrow> ((string \<times> cell) list \<times> real) list" where
  "quali_seconds pyfloat df_clean =
     concat (map (\<lambda>row. case time_to_seconds pyfloat (cell_of row ''quali_time'') of
                           None \<Rightarrow> []
                         | Some s \<Rightarrow> [(row, s)]) (rows df_clean))"

definition create_qualifying_chart :: "(string \<Rightarrow> real option) \<Rightarrow> frame \<Rightarrow> chart_result" where
  "create_qualifying_chart pyfloat df =
     (if ''quali_time'' \<notin> set (columns df) \<or> ''team'' \<notin> set (columns df) then
        \<lparr>warnings = [''Missing qualifying time or team data''], returned = Inr None\<rparr>
      else
        let df_clean = dropna [''quali_time'', ''team''] df in
        if frame_empty df_clean then
          \<lparr>warnings = [''No qualifying data available''], returned = Inr None\<rparr>
        else
          let converted = quali_seconds pyfloat df_clean in
          if converted = [] then
            \<lparr>warnings = [''Couldn't convert qualifying times''], returned = Inr None\<rparr>
          else if ''driver'' \<notin> set (columns df) then
            \<lparr>warnings = [], returned = Inl ValueError\<rparr>
          else
            \<lparr>warnings = [],
             returned = Inr (Some (Scatter (map (\<lambda>(row, s). (s, cell_of row ''team'')) converted)))\<rparr>)"

text \<open>\<open>create_position_change_histogram\<close>.\<close>

definition create_position_change_histogram :: "frame \<Rightarrow> chart_result" where
  "create_position_change_histogram df =
     (if length (pos_cols df) < 2 then \<lparr>warnings = [], returned = Inr None\<rparr>
      else
        case to_numeric (column df (pos_cols df ! 1)) of
          Inl e \<Rightarrow> \<lparr>warnings = [], returned = Inl e\<rparr>
        | Inr rs \<Rightarrow>
            (case to_numeric (column df (pos_cols df ! 0)) of
               Inl e \<Rightarrow> \<lparr>warnings = [], returned = Inl e\<rparr>
             | Inr qs \<Rightarrow>
                 \<lparr>warnings = [],
                  returned = Inr (Some (Histogram (map (\<lambda>(r, q). series_sub r q) (zip rs qs))))\<rparr>))"

text \<open>\<open>create_team_performance_chart\<close>.\<close>

definition create_team_performance_chart :: "frame \<Rightarrow> chart_result" where
  "create_team_performance_chart df =
     (if pos_cols df = [] \<or> team_cols df = [] then \<lparr>warnings = [], returned = Inr None\<rparr>
      else
        \<lparr>warnings = [],
         returned = Inr (Some (Box (map (\<lambda>row. (cell_of row (team_cols df ! 0),
                                                 cell_of row (pos_cols df ! 0))) (rows df))))\<rparr>)"

text \<open>\<open>create_weather_chart\<close>; the plot is inside \<open>try\<close>.\<close>

definition weather_cols :: "frame \<Rightarrow> string list" where
  "weather_cols df =
     filter (\<lambda>col. list_ex (\<lambda>w. str_contains (py_lower col) w)
                           [''weather'', ''rain'', ''temp'', ''condition'']) (columns df)"

definition create_weather_chart :: "frame \<Rightarrow> chart_result" where
  "create_weather_chart df =
     (if weather_cols df = [] \<or> pos_cols df = [] then
        \<lparr>warnings = [''No weather data found''], returned = Inr None\<rparr>
      else
        \<lparr>warnings = [],
         returned = Inr (Some (Box (map (\<lambda>row. (cell_of row (weather_cols df ! 0),
                                                 cell_of row (pos_cols df ! 0))) (rows df))))\<rparr>)"

section \<open>Reference definitions and sample data\<close>

text \<open>The first non-null entry of a list of cells; null when there is none.\<close>

fun first_non_null :: "'a option list \<Rightarrow> 'a option" where
  "first_non_null [] = None"
| "first_non_null (None # xs) = first_non_null xs"
| "first_non_null (Some v # xs) = Some v"

text \<open>
  The pairs (qualifying position, race position) of the rows of a table in which both
  are known, the known qualifying positions of the rows of one team, and the Pearson
  coefficient of a list of pairs as its textbook formula gives it: the sum of the
  products of the deviations from the means, divided by the root of the product of the
  two sums of squared deviations; it is undefined when one of these sums is zero.
\<close>

definition position_pairs :: "'a combined_row_scheme list \<Rightarrow> (real \<times> real) list" where
  "position_pairs df = complete_pairs (map quali_position df) (map race_position df)"

definition team_quali_positions :: "'a combined_row_scheme list \<Rightarrow> string \<Rightarrow> real list" where
  "team_quali_positions df t = notna_values (map quali_position (filter (\<lambda>r. team r = Some t) df))"

definition pearson_direct :: "(real \<times> real) list \<Rightarrow> real option" where
  "pearson_direct ps =
     (let xs = map fst ps; ys = map snd ps;
          sxy = sum_list (map (\<lambda>(x, y). (x - mean xs) * (y - mean ys)) ps);
          sxx = sum_list (map (\<lambda>x. (x - mean xs) ^ 2) xs);
          syy = sum_list (map (\<lambda>y. (y - mean ys) ^ 2) ys)
      in if sxx = 0 \<or> syy = 0 then None else Some (sxy / sqrt (sxx * syy)))"

text \<open>Three qualifying rows: a driver out in Q1, a driver out in Q2, a driver without a time.\<close>

definition sample_quali :: "session_result list" where
  "sample_quali =
     [\<lparr>Position = Some 16, Abbreviation = ''BOT'', TeamName = Some ''Kick Sauber'',
       Q1 = Some (901 / 10), Q2 = None, Q3 = None, Points = None, Status = None\<rparr>,
      \<lparr>Position = Some 11, Abbreviation = ''TSU'', TeamName = Some ''RB'',
       Q1 = Some (901 / 10), Q2 = Some (895 / 10), Q3 = None, Points = None, Status = None\<rparr>,
      \<lparr>Position = None, Abbreviation = ''SAR'', TeamName = Some ''Williams'',
       Q1 = None, Q2 = None, Q3 = None, Points = None, Status = None\<rparr>]"

text \<open>
  An event in which VER only qualified, ALO only raced and HAM did both, and the same
  event under another date.
\<close>

definition sample_event :: race_data where
  "sample_event =
     \<lparr>race_results =
        [\<lparr>Position = Some 1, Abbreviation = ''HAM'', TeamName = Some ''Mercedes'',
          Q1 = None, Q2 = None, Q3 = None, Points = Some 25, Status = Some ''Finished''\<rparr>,
         \<lparr>Position = None, Abbreviation = ''ALO'', TeamName = Some ''Aston Martin'',
          Q1 = None, Q2 = None, Q3 = None, Points = Some 0, Status = Some ''Retired''\<rparr>],
      quali_results =
        [\<lparr>Position = Some 1, Abbreviation = ''VER'', TeamName = Some ''Red Bull Racing'',
          Q1 = Some (901 / 10), Q2 = Some (895 / 10), Q3 = Some 89, Points = None, Status = None\<rparr>,
         \<lparr>Position = Some 2, Abbreviation = ''HAM'', TeamName = Some ''Mercedes'',
          Q1 = Some (901 / 10), Q2 = Some (895 / 10), Q3 = None, Points = None, Status = None\<rparr>],
      race_info = \<lparr>info_year = 2024, info_race = ''Bahrain'',
                   info_event_name = ''Bahrain Grand Prix'', info_date = ''2024-03-02''\<rparr>\<rparr>"

definition sample_event_other_date :: race_data where
  "sample_event_other_date =
     sample_event\<lparr>race_info := (race_info sample_event)\<lparr>info_date := ''2024-03-09''\<rparr>\<rparr>"

text \<open>
  A provider that has no data for Australia and the same session for every other event,
  and the five events of the main block of data\_collection.py, each with a weather tag.
\<close>

definition sample_session :: session where
  "sample_session =
     \<lparr>results = [\<lparr>Position = Some 1, Abbreviation = ''VER'', TeamName = Some ''Red Bull Racing'',
                  Q1 = Some 91, Q2 = Some 90, Q3 = Some 89, Points = Some 25,
                  Status = Some ''Finished''\<rparr>],
      EventName = ''Grand Prix'', date = ''2024''\<rparr>"

definition sample_provider :: provider where
  "sample_provider yr race_name kind =
     (if race_name = ''Australia'' then Inl (Exception ''no data for this session'')
      else Inr sample_session)"

text \<open>
  A data set of nine rows, three teams with the qualifying positions 1 2 3, 4 5 6 and
  7 8 9, and three further rows in which a position is null.
\<close>

definition sample_row :: "string \<Rightarrow> string \<Rightarrow> real option \<Rightarrow> real option \<Rightarrow> combined_row" where
  "sample_row t d q r =
     \<lparr>quali_position = q, driver = d, team = Some t, quali_time = None, race_position = r,
      points = None, status = None, position_change = series_sub r q,
      year = 2024, race = ''Bahrain'', event_name = ''Bahrain Grand Prix''\<rparr>"

definition sample_dataset :: "combined_row list" where
  "sample_dataset =
     [sample_row ''Alpha'' ''AAA'' (Some 1) (Some 2), sample_row ''Alpha'' ''AAB'' (Some 2) (Some 1),
      sample_row ''Alpha'' ''AAC'' (Some 3) (Some 3), sample_row ''Beta'' ''BBA'' (Some 4) (Some 5),
      sample_row ''Beta'' ''BBB'' (Some 5) (Some 4), sample_row ''Beta'' ''BBC'' (Some 6) (Some 6),
      sample_row ''Gamma'' ''CCA'' (Some 7) (Some 9), sample_row ''Gamma'' ''CCB'' (Some 8) (Some 7),
      sample_row ''Gamma'' ''CCC'' (Some 9) (Some 8)]"

definition sample_null_rows :: "combined_row list" where
  "sample_null_rows =
     [sample_row ''Alpha'' ''AAD'' (Some 10) None, sample_row ''Beta'' ''BBD'' None (Some 10),
      sample_row ''Gamma'' ''CCD'' None None]"

text \<open>
  The same rows as the dashboard reads them from the file written by the analysis
  script, with five of the columns.
\<close>

fun cell_of_num :: "real option \<Rightarrow> cell" where
  "cell_of_num None = NaN"
| "cell_of_num (Some r) = Num r"

definition csv_row :: "combined_row \<Rightarrow> (string \<times> cell) list" where
  "csv_row r =
     [(''quali_position'', cell_of_num (quali_position r)), (''driver'', Str (driver r)),
      (''team'', case team r of None \<Rightarrow> NaN | Some t \<Rightarrow> Str t),
      (''race_position'', cell_of_num (race_position r)),
      (''position_change'', cell_of_num (position_change r))]"

definition sample_frame :: frame where
  "sample_frame =
     \<lparr>columns = [''quali_position'', ''driver'', ''team'', ''race_position'', ''position_change''],
      rows = map csv_row sample_dataset\<rparr>"

text \<open>
  A parser of plain decimal literals such as \<open>01\<close> and \<open>29.5\<close>, on which the
  conversion \<open>float\<close> of Python gives the same number; it stands for the parameter
  \<open>pyfloat\<close> in the examples.
\<close>

definition is_digit :: "char \<Rightarrow> bool" where
  "is_digit c = (CHR ''0'' \<le> c \<and> c \<le> CHR ''9'')"

definition digits_value :: "string \<Rightarrow> nat" where
  "digits_value s = foldl (\<lambda>a c. 10 * a + (of_char c - 48)) 0 s"

definition decimal_float :: "string \<Rightarrow> real option" where
  "decimal_float s =
     (case py_split_on CHR ''.'' s of
        [a] \<Rightarrow> if a \<noteq> [] \<and> list_all is_digit a then Some (real (digits_value a)) else None
      | [a, b] \<Rightarrow>
          if (a \<noteq> [] \<or> b \<noteq> []) \<and> list_all is_digit a \<and> list_all is_digit b
          then Some (real (digits_value a) + real (digits_value b) / 10 ^ length b)
          else None
      | _ \<Rightarrow> None)"

text \<open>
  A table of four qualifying times: a time stamp with a day prefix, a text that is no
  time, a number and a null cell; and a table without any position, team or time column.
\<close>

definition sample_times :: frame where
  "sample_times =
     \<lparr>columns = [''driver'', ''team'', ''quali_time''],
      rows = [[(''driver'', Str ''LEC''), (''team'', Str ''Ferrari''),
               (''quali_time'', Str ''0 days 00:01:29.5'')],
              [(''driver'', Str ''SAI''), (''team'', Str ''Ferrari''),
               (''quali_time'', Str ''no time set'')],
              [(''driver'', Str ''NOR''), (''team'', Str ''McLaren''),
               (''quali_time'', Num (901 / 10))],
              [(''driver'', Str ''PIA''), (''team'', Str ''McLaren''),
               (''quali_time'', NaN)]]\<rparr>"

definition sample_no_positions :: frame where
  "sample_no_positions =
     \<lparr>columns = [''driver'', ''points''],
      rows = [[(''driver'', Str ''LEC''), (''points'', Num 25)]]\<rparr>"


text \<open>
  A qualifying session and a race session of the same two drivers: VER goes from third to
  seventh place, HAM from seventh to second.
\<close>

definition sample_grid :: session where
  "sample_grid =
     \<lparr>results = [\<lparr>Position = Some 3, Abbreviation = ''VER'', TeamName = Some ''Red Bull Racing'',
                  Q1 = Some 91, Q2 = Some 90, Q3 = Some 89, Points = None, Status = None\<rparr>,
                 \<lparr>Position = Some 7, Abbreviation = ''HAM'', TeamName = Some ''Mercedes'',
                  Q1 = Some 92, Q2 = Some 91, Q3 = Some 90, Points = None, Status = None\<rparr>],
      EventName = ''Bahrain Grand Prix'', date = ''2024-03-01''\<rparr>"

definition sample_finish :: session where
  "sample_finish =
     \<lparr>results = [\<lparr>Position = Some 2, Abbreviation = ''HAM'', TeamName = Some ''Mercedes'',
                  Q1 = None, Q2 = None, Q3 = None, Points = Some 18, Status = Some ''Finished''\<rparr>,
                 \<lparr>Position = Some 7, Abbreviation = ''VER'', TeamName = Some ''Red Bull Racing'',
                  Q1 = None, Q2 = None, Q3 = None, Points = Some 6, Status = Some ''Finished''\<rparr>],
      EventName = ''Bahrain Grand Prix'', date = ''2024-03-02''\<rparr>"

definition sample_weekend :: race_data where
  "sample_weekend =
     \<lparr>race_results = results sample_finish, quali_results = results sample_grid,
      race_info = \<lparr>info_year = 2024, info_race = ''Bahrain'',
                   info_event_name = EventName sample_finish, info_date = date sample_finish\<rparr>\<rparr>"

section \<open>Best qualifying time\<close>

lemma length_fillna: "length (fillna s other) = min (length s) (length other)"
  by (simp add: fillna_def)

lemma nth_fillna:
  "i < length s \<Longrightarrow> i < length other \<Longrightarrow>
   fillna s other ! i = (case s ! i of None \<Rightarrow> other ! i | Some v \<Rightarrow> Some v)"
  by (simp add: fillna_def)

lemma length_quali_time_column: "length (quali_time_column qs) = length qs"
  by (simp add: quali_time_column_def length_fillna)

lemma nth_quali_time_column:
  "i < length qs \<Longrightarrow>
   quali_time_column qs ! i =
     (case Q3 (qs ! i) of Some v \<Rightarrow> Some v
      | None \<Rightarrow> (case Q2 (qs ! i) of Some v \<Rightarrow> Some v | None \<Rightarrow> Q1 (qs ! i)))"
  by (simp add: quali_time_column_def nth_fillna length_fillna split: option.splits)

lemma length_make_quali_df: "length (make_quali_df qs) = length qs"
  by (simp add: make_quali_df_def length_quali_time_column)

lemma nth_make_quali_df:
  "i < length qs \<Longrightarrow>
   make_quali_df qs ! i =
     \<lparr>qd_Position = Position (qs ! i), qd_Abbreviation = Abbreviation (qs ! i),
      qd_TeamName = TeamName (qs ! i), qd_quali_time = quali_time_column qs ! i\<rparr>"
  by (simp add: make_quali_df_def length_quali_time_column)

text \<open>
  Claim C2.  In every row of the qualifying table, \<open>quali_time\<close> is the first non-null
  of the Q3, Q2 and Q1 times in that order, and it is null exactly when the three are
  null.  The expression displayed by the exploration script picks the same time.
\<close>

theorem quali_time_first_non_null:
  "i < length qs \<Longrightarrow>
     qd_quali_time (make_quali_df qs ! i) = first_non_null [Q3 (qs ! i), Q2 (qs ! i), Q1 (qs ! i)]
   \<and> (qd_quali_time (make_quali_df qs ! i) = None
        \<longleftrightarrow> Q3 (qs ! i) = None \<and> Q2 (qs ! i) = None \<and> Q1 (qs ! i) = None)
   \<and> displayed_quali_time (qs ! i) = first_non_null [Q3 (qs ! i), Q2 (qs ! i), Q1 (qs ! i)]"
  by (cases "Q3 (qs ! i)"; cases "Q2 (qs ! i)"; cases "Q1 (qs ! i)")
     (simp_all add: nth_make_quali_df nth_quali_time_column displayed_quali_time_def)

text \<open>
  The rows of the specification: (Q1 = 90.1, Q2 null, Q3 null) gives 90.1,
  (Q1 = 90.1, Q2 = 89.5, Q3 null) gives 89.5, and three nulls give null.
\<close>

theorem quali_time_first_non_null_witness:
  "(0::nat) < length sample_quali \<and> 1 < length sample_quali \<and> 2 < length sample_quali
   \<and> qd_quali_time (make_quali_df sample_quali ! 0) = Some (901 / 10)
   \<and> qd_quali_time (make_quali_df sample_quali ! 1) = Some (895 / 10)
   \<and> qd_quali_time (make_quali_df sample_quali ! 2) = None
   \<and> displayed_quali_time (sample_quali ! 0) = Some (901 / 10)
   \<and> displayed_quali_time (sample_quali ! 1) = Some (895 / 10)
   \<and> displayed_quali_time (sample_quali ! 2) = None"
proof -
  have l: "length sample_quali = 3"
    by (simp add: sample_quali_def)
  have h0: "0 < length sample_quali" and h1: "1 < length sample_quali"
    and h2: "2 < length sample_quali"
    using l by simp_all
  show ?thesis
    using quali_time_first_non_null [OF h0] quali_time_first_non_null [OF h1]
      quali_time_first_non_null [OF h2] h0 h1 h2
    by (simp add: sample_quali_def)
qed

section \<open>The outer join\<close>

lemma keys_make_quali_df: "map qd_Abbreviation (make_quali_df qs) = map Abbreviation qs"
  by (rule nth_equalityI) (simp_all add: length_make_quali_df nth_make_quali_df)

lemma keys_make_race_df: "map rd_Abbreviation (make_race_df rs) = map Abbreviation rs"
  by (simp add: make_race_df_def comp_def)

lemma length_make_race_df: "length (make_race_df rs) = length rs"
  by (simp add: make_race_df_def)

lemma filter_key_le1: "distinct (map f xs) \<Longrightarrow> length (filter (\<lambda>r. f r = k) xs) \<le> 1"
  by (induction xs) (auto simp: filter_empty_conv image_iff)

lemma filter_key_eq1:
  "distinct (map f xs) \<Longrightarrow> k \<in> set (map f xs) \<Longrightarrow> length (filter (\<lambda>r. f r = k) xs) = 1"
  by (induction xs) (auto simp: filter_empty_conv image_iff)

lemma drivers_left_part:
  "distinct (map rd_Abbreviation right) \<Longrightarrow>
   map m_driver (left_part left right) = map qd_Abbreviation left"
proof (induction left)
  case Nil
  then show ?case by (simp add: left_part_def)
next
  case (Cons l left)
  have "length (filter (\<lambda>r. rd_Abbreviation r = qd_Abbreviation l) right) \<le> 1"
    using Cons.prems by (rule filter_key_le1)
  then have "map m_driver (case filter (\<lambda>r. rd_Abbreviation r = qd_Abbreviation l) right of
                             [] \<Rightarrow> [left_only l]
                           | m # ms \<Rightarrow> map (both_sides l) (m # ms)) = [qd_Abbreviation l]"
    by (auto simp: left_only_def both_sides_def split: list.splits)
  with Cons show ?case by (simp add: left_part_def)
qed

lemma drivers_right_part:
  "map m_driver (right_part left right) =
   filter (\<lambda>k. k \<notin> set (map qd_Abbreviation left)) (map rd_Abbreviation right)"
  by (simp add: right_part_def filter_map comp_def right_only_def)

lemma length_right_matched:
  assumes "distinct (map rd_Abbreviation right)"
  shows "length (filter (\<lambda>r. rd_Abbreviation r \<in> set (map qd_Abbreviation left)) right)
         \<le> length left"
proof -
  let ?ms = "filter (\<lambda>r. rd_Abbreviation r \<in> set (map qd_Abbreviation left)) right"
  have d: "distinct (map rd_Abbreviation ?ms)"
    using assms by (simp add: distinct_map_filter)
  have "length ?ms = length (map rd_Abbreviation ?ms)" by simp
  also have "\<dots> = card (set (map rd_Abbreviation ?ms))"
    using d by (simp only: distinct_card)
  also have "\<dots> \<le> card (set (map qd_Abbreviation left))"
    by (rule card_mono) auto
  also have "\<dots> \<le> length (map qd_Abbreviation left)"
    by (rule card_length)
  finally show ?thesis by simp
qed

lemma length_right_part:
  "length (right_part left right)
   + length (filter (\<lambda>r. rd_Abbreviation r \<in> set (map qd_Abbreviation left)) right)
   = length right"
  unfolding right_part_def length_map
  using sum_length_filter_compl [of "\<lambda>r. rd_Abbreviation r \<in> set (map qd_Abbreviation left)" right]
  by simp

lemma length_left_part:
  assumes "distinct (map rd_Abbreviation right)"
  shows "length (left_part left right) = length left"
proof -
  have "length (map m_driver (left_part left right)) = length (map qd_Abbreviation left)"
    using assms by (simp only: drivers_left_part)
  then show ?thesis by simp
qed

lemma distinct_map_sort_key: "distinct (map f (sort_key f xs)) = distinct (map f xs)"
  by (induction xs) (simp_all add: distinct_insort_key)

lemma distinct_drivers_merge_outer:
  assumes "distinct (map qd_Abbreviation left)" and "distinct (map rd_Abbreviation right)"
  shows "distinct (map m_driver (merge_outer left right))"
  using assms
  by (auto simp add: merge_outer_def distinct_map_sort_key drivers_left_part drivers_right_part)

lemma set_drivers_merge_outer:
  assumes "distinct (map rd_Abbreviation right)"
  shows "set (map m_driver (merge_outer left right)) =
         set (map qd_Abbreviation left) \<union> set (map rd_Abbreviation right)"
proof -
  have "set (map m_driver (merge_outer left right)) =
        set (map m_driver (left_part left right)) \<union> set (map m_driver (right_part left right))"
    by (simp add: merge_outer_def image_Un)
  also have "\<dots> = set (map qd_Abbreviation left) \<union>
        set (filter (\<lambda>k. k \<notin> set (map qd_Abbreviation left)) (map rd_Abbreviation right))"
    using assms by (simp only: drivers_left_part drivers_right_part)
  also have "\<dots> = set (map qd_Abbreviation left) \<union> set (map rd_Abbreviation right)"
    by auto
  finally show ?thesis .
qed

lemma length_merge_outer:
  assumes "distinct (map rd_Abbreviation right)"
  shows "max (length left) (length right) \<le> length (merge_outer left right)
       \<and> length (merge_outer left right) \<le> length left + length right"
proof -
  have l: "length (merge_outer left right) = length left + length (right_part left right)"
    using assms by (simp add: merge_outer_def length_left_part)
  show ?thesis
    using l length_right_part [of left right] length_right_matched [OF assms, of left]
    by linarith
qed

lemma left_part_rows:
  assumes "m \<in> set (left_part left right)"
  shows "\<exists>l \<in> set left.
           (m = left_only l \<and> qd_Abbreviation l \<notin> set (map rd_Abbreviation right))
         \<or> (\<exists>r \<in> set right. rd_Abbreviation r = qd_Abbreviation l \<and> m = both_sides l r)"
proof -
  from assms obtain l where l: "l \<in> set left"
    and m: "m \<in> set (case filter (\<lambda>r. rd_Abbreviation r = qd_Abbreviation l) right of
                          [] \<Rightarrow> [left_only l] | x # xs \<Rightarrow> map (both_sides l) (x # xs))"
    by (auto simp: left_part_def)
  show ?thesis
  proof (cases "filter (\<lambda>r. rd_Abbreviation r = qd_Abbreviation l) right")
    case Nil
    then have "qd_Abbreviation l \<notin> set (map rd_Abbreviation right)"
      by (auto simp: filter_empty_conv)
    with Nil m l show ?thesis by auto
  next
    case (Cons x xs)
    with m obtain r where "r \<in> set (filter (\<lambda>r. rd_Abbreviation r = qd_Abbreviation l) right)"
      and "m = both_sides l r"
      by auto
    with l show ?thesis by auto
  qed
qed

lemma right_part_rows:
  assumes "m \<in> set (right_part left right)"
  shows "\<exists>r \<in> set right. m = right_only r \<and> rd_Abbreviation r \<notin> set (map qd_Abbreviation left)"
  using assms by (auto simp: right_part_def)

lemma merge_outer_nulls:
  assumes "m \<in> set (merge_outer left right)"
  shows "(m_driver m \<notin> set (map rd_Abbreviation right) \<longrightarrow>
            m_race_position m = None \<and> m_points m = None \<and> m_status m = None)
       \<and> (m_driver m \<notin> set (map qd_Abbreviation left) \<longrightarrow>
            m_quali_position m = None \<and> m_team m = None \<and> m_quali_time m = None)"
proof -
  from assms consider "m \<in> set (left_part left right)" | "m \<in> set (right_part left right)"
    by (auto simp: merge_outer_def)
  then show ?thesis
  proof cases
    case 1
    from left_part_rows [OF 1] show ?thesis
      by (force simp: left_only_def both_sides_def)
  next
    case 2
    from right_part_rows [OF 2] show ?thesis
      by (auto simp: right_only_def)
  qed
qed

lemma driver_add_columns: "map driver (map (add_columns info) ms) = map m_driver ms"
  by (simp add: add_columns_def comp_def)

text \<open>
  Claim C1.  When the driver codes of the qualifying rows are distinct and those of the
  race rows are distinct, the merged table has at least as many rows as the larger input
  and at most as many as both together, its drivers are the drivers of the two inputs,
  each of them is in exactly one row, and a driver of one session only has null in the
  columns of the other session.
\<close>

theorem reconcile_outer_join:
  assumes dq: "distinct (map Abbreviation (quali_results rd))"
    and dr: "distinct (map Abbreviation (race_results rd))"
  shows "\<exists>combined. create_combined_dataframe (Some rd) = Some combined
      \<and> max (length (quali_results rd)) (length (race_results rd)) \<le> length combined
      \<and> length combined \<le> length (quali_results rd) + length (race_results rd)
      \<and> set (map driver combined)
          = set (map Abbreviation (quali_results rd)) \<union> set (map Abbreviation (race_results rd))
      \<and> (\<forall>d \<in> set (map Abbreviation (quali_results rd)) \<union> set (map Abbreviation (race_results rd)).
            length (filter (\<lambda>row. driver row = d) combined) = 1)
      \<and> (\<forall>row \<in> set combined.
            (driver row \<notin> set (map Abbreviation (race_results rd)) \<longrightarrow>
               race_position row = None \<and> points row = None \<and> status row = None)
          \<and> (driver row \<notin> set (map Abbreviation (quali_results rd)) \<longrightarrow>
               quali_position row = None \<and> team row = None \<and> quali_time row = None))"
proof -
  let ?left = "make_quali_df (quali_results rd)"
  let ?right = "make_race_df (race_results rd)"
  let ?merged = "merge_outer ?left ?right"
  let ?combined = "map (add_columns (race_info rd)) ?merged"
  have dl: "distinct (map qd_Abbreviation ?left)"
    using dq by (simp only: keys_make_quali_df)
  have drr: "distinct (map rd_Abbreviation ?right)"
    using dr by (simp only: keys_make_race_df)
  have res: "create_combined_dataframe (Some rd) = Some ?combined"
    by (simp add: create_combined_dataframe_def)
  have len: "max (length (quali_results rd)) (length (race_results rd)) \<le> length ?combined
      \<and> length ?combined \<le> length (quali_results rd) + length (race_results rd)"
    using length_merge_outer [OF drr, of ?left]
    by (simp add: length_make_quali_df length_make_race_df)
  have drivers: "map driver ?combined = map m_driver ?merged"
    by (rule driver_add_columns)
  have keys: "set (map driver ?combined)
          = set (map Abbreviation (quali_results rd)) \<union> set (map Abbreviation (race_results rd))"
    unfolding drivers set_drivers_merge_outer [OF drr]
    by (simp only: keys_make_quali_df keys_make_race_df)
  have dist: "distinct (map driver ?combined)"
    unfolding drivers by (rule distinct_drivers_merge_outer [OF dl drr])
  have once: "\<forall>d \<in> set (map Abbreviation (quali_results rd)) \<union> set (map Abbreviation (race_results rd)).
            length (filter (\<lambda>row. driver row = d) ?combined) = 1"
    using filter_key_eq1 [OF dist] keys by blast
  have nulls: "\<forall>row \<in> set ?combined.
            (driver row \<notin> set (map Abbreviation (race_results rd)) \<longrightarrow>
               race_position row = None \<and> points row = None \<and> status row = None)
          \<and> (driver row \<notin> set (map Abbreviation (quali_results rd)) \<longrightarrow>
               quali_position row = None \<and> team row = None \<and> quali_time row = None)"
  proof
    fix row assume "row \<in> set ?combined"
    then obtain m where m: "m \<in> set ?merged" and row: "row = add_columns (race_info rd) m"
      by auto
    from merge_outer_nulls [OF m] show "(driver row \<notin> set (map Abbreviation (race_results rd)) \<longrightarrow>
               race_position row = None \<and> points row = None \<and> status row = None)
          \<and> (driver row \<notin> set (map Abbreviation (quali_results rd)) \<longrightarrow>
               quali_position row = None \<and> team row = None \<and> quali_time row = None)"
      unfolding keys_make_quali_df keys_make_race_df
      by (simp add: row add_columns_def)
  qed
  from res len keys once nulls show ?thesis by blast
qed

text \<open>The sample event: VER, HAM and ALO are in one row each, three rows in all.\<close>

theorem reconcile_outer_join_witness:
  "distinct (map Abbreviation (quali_results sample_event))
   \<and> distinct (map Abbreviation (race_results sample_event))
   \<and> (\<exists>combined. create_combined_dataframe (Some sample_event) = Some combined
      \<and> length combined = 3
      \<and> max (length (quali_results sample_event)) (length (race_results sample_event)) \<le> length combined
      \<and> length combined \<le> length (quali_results sample_event) + length (race_results sample_event)
      \<and> set (map driver combined) = {''VER'', ''HAM'', ''ALO''}
      \<and> (\<forall>d \<in> {''VER'', ''HAM'', ''ALO''}. length (filter (\<lambda>row. driver row = d) combined) = 1))"
proof -
  have dq: "distinct (map Abbreviation (quali_results sample_event))"
    by (simp add: sample_event_def)
  have dr: "distinct (map Abbreviation (race_results sample_event))"
    by (simp add: sample_event_def)
  have k: "set (map Abbreviation (quali_results sample_event)) \<union> set (map Abbreviation (race_results sample_event))
         = {''VER'', ''HAM'', ''ALO''}"
    by (auto simp add: sample_event_def)
  have l: "length (the (create_combined_dataframe (Some sample_event))) = 3"
    by (simp add: sample_event_def create_combined_dataframe_def make_quali_df_def make_race_df_def
     quali_time_column_def fillna_def merge_outer_def left_part_def right_part_def)
  from reconcile_outer_join [OF dq dr] obtain combined where
    c: "create_combined_dataframe (Some sample_event) = Some combined" and
    r: "max (length (quali_results sample_event)) (length (race_results sample_event)) \<le> length combined
      \<and> length combined \<le> length (quali_results sample_event) + length (race_results sample_event)
      \<and> set (map driver combined)
          = set (map Abbreviation (quali_results sample_event)) \<union> set (map Abbreviation (race_results sample_event))
      \<and> (\<forall>d \<in> set (map Abbreviation (quali_results sample_event)) \<union> set (map Abbreviation (race_results sample_event)).
            length (filter (\<lambda>row. driver row = d) combined) = 1)"
    by blast
  from l c have "length combined = 3" by simp
  with c r dq dr show ?thesis unfolding k by blast
qed

section \<open>Empty inputs\<close>

text \<open>
  Claim C7.  When the qualifying rows and the race rows are both empty tables, the
  result is the empty table: the function returns it and does not fail.
\<close>

theorem reconcile_empty_inputs:
  "create_combined_dataframe (Some \<lparr>race_results = [], quali_results = [], race_info = info\<rparr>)
   = Some []"
  by (simp add: create_combined_dataframe_def make_quali_df_def make_race_df_def
      quali_time_column_def fillna_def merge_outer_def left_part_def right_part_def)

section \<open>Event metadata\<close>

text \<open>
  Claim C6 as stated fails: the rows do not carry the event date.  The sample event
  under two different dates gives the same non-empty table.
\<close>

theorem event_date_not_on_rows:
  "create_combined_dataframe (Some sample_event_other_date)
     = create_combined_dataframe (Some sample_event)
   \<and> create_combined_dataframe (Some sample_event) \<noteq> Some []
   \<and> create_combined_dataframe (Some sample_event) \<noteq> None
   \<and> info_date (race_info sample_event_other_date) \<noteq> info_date (race_info sample_event)"
  by (simp add: sample_event_other_date_def sample_event_def create_combined_dataframe_def
      make_quali_df_def make_race_df_def quali_time_column_def fillna_def merge_outer_def
      left_part_def right_part_def add_columns_def)

text \<open>
  Claim C6 as amended.  Every row of the result carries the season year, the race name
  and the event display name of \<open>race_info\<close>; the event date stays in \<open>race_info\<close>
  and the table is the same whatever the date is.
\<close>

theorem event_metadata_on_rows:
  "\<exists>combined. create_combined_dataframe (Some rd) = Some combined
     \<and> (\<forall>row \<in> set combined.
           year row = info_year (race_info rd) \<and> race row = info_race (race_info rd)
         \<and> event_name row = info_event_name (race_info rd))
     \<and> create_combined_dataframe (Some (rd\<lparr>race_info := (race_info rd)\<lparr>info_date := d\<rparr>\<rparr>))
         = Some combined"
  by (auto simp add: create_combined_dataframe_def add_columns_def)

theorem event_metadata_on_rows_witness:
  "\<exists>combined. create_combined_dataframe (Some sample_event) = Some combined
     \<and> combined \<noteq> []
     \<and> (\<forall>row \<in> set combined.
           year row = 2024 \<and> race row = ''Bahrain'' \<and> event_name row = ''Bahrain Grand Prix'')"
proof -
  have ne: "create_combined_dataframe (Some sample_event) \<noteq> Some []"
    by (simp add: sample_event_def create_combined_dataframe_def make_quali_df_def
        make_race_df_def quali_time_column_def fillna_def merge_outer_def left_part_def
        right_part_def)
  have i: "info_year (race_info sample_event) = 2024"
    "info_race (race_info sample_event) = ''Bahrain''"
    "info_event_name (race_info sample_event) = ''Bahrain Grand Prix''"
    by (simp_all add: sample_event_def)
  from event_metadata_on_rows [of sample_event "''2024-03-09''"] ne show ?thesis
    unfolding i by blast
qed

section \<open>Collecting several events\<close>

lemma collect_race_data_None:
  "collect_race_data P yr n = None \<longleftrightarrow> (\<exists>e. P yr n ''R'' = Inl e) \<or> (\<exists>e. P yr n ''Q'' = Inl e)"
  by (cases "P yr n ''R''"; cases "P yr n ''Q''") (simp_all add: collect_race_data_def)

lemma create_combined_dataframe_Some:
  "\<exists>df. create_combined_dataframe (Some rd) = Some df"
  by (simp add: create_combined_dataframe_def)

lemma collect_loop_acc:
  "collect_loop P races acc =
     acc @ map (\<lambda>(n, w). map (set_weather w)
                  (the (create_combined_dataframe (collect_race_data P 2024 n))))
             (filter (\<lambda>(n, w). collect_race_data P 2024 n \<noteq> None) races)"
proof (induction races arbitrary: acc)
  case Nil
  show ?case by simp
next
  case (Cons ev races)
  obtain n w where ev: "ev = (n, w)" by (cases ev)
  show ?case
  proof (cases "collect_race_data P 2024 n")
    case None
    then show ?thesis using Cons.IH by (simp add: ev)
  next
    case (Some rd)
    obtain df where df: "create_combined_dataframe (Some rd) = Some df"
      using create_combined_dataframe_Some by blast
    show ?thesis using Cons.IH [of "acc @ [map (set_weather w) df]"] Some df
      by (simp add: ev)
  qed
qed

text \<open>
  Claim C5.  The fetch of one event returns \<open>None\<close> exactly when the provider raises for
  the race session or for the qualifying session.  The loop over the events leaves such
  an event out and goes on: the data set is the concatenation, in the order of the
  request, of the tables of the events that were fetched (and \<open>None\<close> when none was),
  so a failing event gives the same data set as a request without it.
\<close>

theorem partial_failure_tolerance:
  "(collect_race_data get_session yr name = None
      \<longleftrightarrow> (\<exists>e. get_session yr name ''R'' = Inl e) \<or> (\<exists>e. get_session yr name ''Q'' = Inl e))
   \<and> collect_season get_session races =
       (let fetched = filter (\<lambda>(n, w). collect_race_data get_session 2024 n \<noteq> None) races in
        if fetched = [] then None
        else Some (concat (map (\<lambda>(n, w). map (set_weather w)
                     (the (create_combined_dataframe (collect_race_data get_session 2024 n))))
                   fetched)))
   \<and> (collect_race_data get_session 2024 name = None \<longrightarrow>
        collect_season get_session (before @ (name, weather) # after)
          = collect_season get_session (before @ after))"
proof -
  have a: "collect_season get_session rs =
       (let fetched = filter (\<lambda>(n, w). collect_race_data get_session 2024 n \<noteq> None) rs in
        if fetched = [] then None
        else Some (concat (map (\<lambda>(n, w). map (set_weather w)
                     (the (create_combined_dataframe (collect_race_data get_session 2024 n))))
                   fetched)))" for rs
    by (simp add: collect_season_def collect_loop_acc Let_def)
  have b: "collect_race_data get_session 2024 name = None \<Longrightarrow>
        collect_season get_session (before @ (name, weather) # after)
          = collect_season get_session (before @ after)"
    unfolding a by simp
  from a b collect_race_data_None show ?thesis by blast
qed

text \<open>
  Five events are requested and the fetch of the third, Australia, raises: the data set
  is the one of the other four events, in their order.
\<close>

theorem partial_failure_tolerance_witness:
  "sample_provider 2024 ''Australia'' ''R'' = Inl (Exception ''no data for this session'')
   \<and> collect_race_data sample_provider 2024 ''Australia'' = None
   \<and> collect_season sample_provider
        ([(''Bahrain'', ''Dry''), (''Saudi Arabia'', ''Dry'')] @ (''Australia'', ''Dry'')
          # [(''Japan'', ''Wet''), (''China'', ''Dry'')])
      = collect_season sample_provider
        ([(''Bahrain'', ''Dry''), (''Saudi Arabia'', ''Dry'')] @ [(''Japan'', ''Wet''), (''China'', ''Dry'')])
   \<and> map race (the (collect_season sample_provider
        ([(''Bahrain'', ''Dry''), (''Saudi Arabia'', ''Dry'')] @ (''Australia'', ''Dry'')
          # [(''Japan'', ''Wet''), (''China'', ''Dry'')])))
      = [''Bahrain'', ''Saudi Arabia'', ''Japan'', ''China'']"
proof -
  have f: "sample_provider 2024 ''Australia'' ''R'' = Inl (Exception ''no data for this session'')"
    by (simp add: sample_provider_def)
  note t = partial_failure_tolerance [of sample_provider 2024 "''Australia''" "[]"
      "[(''Bahrain'', ''Dry''), (''Saudi Arabia'', ''Dry'')]" "''Dry''"
      "[(''Japan'', ''Wet''), (''China'', ''Dry'')]"]
  from t f have n: "collect_race_data sample_provider 2024 ''Australia'' = None"
    by blast
  from t n have e: "collect_season sample_provider
        ([(''Bahrain'', ''Dry''), (''Saudi Arabia'', ''Dry'')] @ (''Australia'', ''Dry'')
          # [(''Japan'', ''Wet''), (''China'', ''Dry'')])
      = collect_season sample_provider
        ([(''Bahrain'', ''Dry''), (''Saudi Arabia'', ''Dry'')] @ [(''Japan'', ''Wet''), (''China'', ''Dry'')])"
    by blast
  have v: "map race (the (collect_season sample_provider
        ([(''Bahrain'', ''Dry''), (''Saudi Arabia'', ''Dry'')] @ [(''Japan'', ''Wet''), (''China'', ''Dry'')])))
      = [''Bahrain'', ''Saudi Arabia'', ''Japan'', ''China'']"
    by (simp add: collect_season_def collect_race_data_def sample_provider_def sample_session_def
        create_combined_dataframe_def make_quali_df_def make_race_df_def quali_time_column_def
        fillna_def merge_outer_def left_part_def right_part_def left_only_def right_only_def
        both_sides_def add_columns_def set_weather_def combined_row.extend_def)
  from f n e v show ?thesis by simp
qed

section \<open>Statistics and null positions\<close>

lemma dropna_positions_append_nulls:
  assumes "\<forall>r \<in> set extra. quali_position r = None \<or> race_position r = None"
  shows "dropna_positions (df @ extra) = dropna_positions df"
proof -
  have "filter (\<lambda>r. quali_position r \<noteq> None \<and> race_position r \<noteq> None) extra = []"
    using assms by (auto simp: filter_empty_conv)
  then show ?thesis by (simp add: dropna_positions_def)
qed

lemma notna_values_append: "notna_values (a @ b) = notna_values a @ notna_values b"
  by (simp add: notna_values_def)

lemma notna_values_all_None: "\<forall>c \<in> set s. c = None \<Longrightarrow> notna_values s = []"
  by (induction s) (simp_all add: notna_values_def)

lemma complete_pairs_append:
  "length a = length b \<Longrightarrow>
   complete_pairs (a @ a') (b @ b') = complete_pairs a b @ complete_pairs a' b'"
  by (simp add: complete_pairs_def)

lemma complete_pairs_nulls:
  "\<forall>(x, y) \<in> set (zip a b). x = None \<or> y = None \<Longrightarrow> complete_pairs a b = []"
  by (induction a arbitrary: b) (auto simp: complete_pairs_def split: option.splits list.splits)


lemma pos_cols_rows [simp]: "pos_cols (df\<lparr>rows := r\<rparr>) = pos_cols df"
  by (simp add: pos_cols_def)

lemma team_cols_rows [simp]: "team_cols (df\<lparr>rows := r\<rparr>) = team_cols df"
  by (simp add: team_cols_def)

lemma column_append_rows:
  "column (df\<lparr>rows := rows df @ extra\<rparr>) c = column df c @ map (\<lambda>row. cell_of row c) extra"
  by (simp add: column_def)

lemma to_numeric_append:
  "\<not> list_ex is_Str b \<Longrightarrow>
   to_numeric (a @ b) = (case to_numeric a of Inl e \<Rightarrow> Inl e | Inr xs \<Rightarrow> Inr (xs @ map num_of b))"
  by (simp add: to_numeric_def)

lemma to_numeric_length: "to_numeric a = Inr xs \<Longrightarrow> length xs = length a"
  by (auto simp: to_numeric_def split: if_splits)

lemma num_of_None: "\<not> is_Str c \<Longrightarrow> num_of c = None \<longleftrightarrow> c = NaN"
  by (cases c) simp_all

lemma num_of_Some: "num_of c = Some y \<Longrightarrow> c = Num y"
  by (cases c) simp_all

lemma pos_changes_append:
  assumes "length rs = length qs"
    and "\<forall>(x, y) \<in> set (zip rs' qs'). x = None \<or> y = None"
  shows "notna_values (map (\<lambda>(r, q). series_sub r q) (zip (rs @ rs') (qs @ qs')))
       = notna_values (map (\<lambda>(r, q). series_sub r q) (zip rs qs))"
proof -
  have "\<forall>c \<in> set (map (\<lambda>(r, q). series_sub r q) (zip rs' qs')). c = None"
    using assms(2) by (auto simp: series_sub_def split: option.splits)
  then have "notna_values (map (\<lambda>(r, q). series_sub r q) (zip rs' qs')) = []"
    by (rule notna_values_all_None)
  then show ?thesis using assms(1) by (simp add: notna_values_append)
qed

lemma position_metrics_append:
  assumes ex: "\<forall>row \<in> set extra.
            (cell_of row (pos_cols df ! 0) = NaN \<or> cell_of row (pos_cols df ! 1) = NaN)
          \<and> \<not> is_Str (cell_of row (pos_cols df ! 0)) \<and> \<not> is_Str (cell_of row (pos_cols df ! 1))"
  shows "map_sum id (\<lambda>m. (m ''qualifying_correlation'', m ''r_squared'', m ''avg_position_change''))
           (position_metrics (df\<lparr>rows := rows df @ extra\<rparr>) metrics)
       = map_sum id (\<lambda>m. (m ''qualifying_correlation'', m ''r_squared'', m ''avg_position_change''))
           (position_metrics df metrics)"
proof -
  define qc where "qc = pos_cols df ! 0"
  define rc where "rc = pos_cols df ! 1"
  define eq where "eq = map (\<lambda>row. cell_of row qc) extra"
  define er where "er = map (\<lambda>row. cell_of row rc) extra"
  have ex': "\<forall>row \<in> set extra. (cell_of row qc = NaN \<or> cell_of row rc = NaN)
          \<and> \<not> is_Str (cell_of row qc) \<and> \<not> is_Str (cell_of row rc)"
    using ex by (simp only: qc_def rc_def)
  have pm: "position_metrics d metrics =
     (case to_numeric (column d qc) of
        Inl e \<Rightarrow> Inl e
      | Inr qs \<Rightarrow>
          (case to_numeric (column d rc) of
             Inl e \<Rightarrow> Inl e
           | Inr rs \<Rightarrow>
               Inr (metrics(''qualifying_correlation'' \<mapsto> series_corr qs rs,
                            ''r_squared'' \<mapsto> map_option (\<lambda>c. c ^ 2) (series_corr qs rs),
                            ''avg_position_change'' \<mapsto> series_mean (map (\<lambda>(r, q). series_sub r q) (zip rs qs)),
                            ''biggest_gain'' \<mapsto> series_min (map (\<lambda>(r, q). series_sub r q) (zip rs qs)),
                            ''biggest_loss'' \<mapsto> series_max (map (\<lambda>(r, q). series_sub r q) (zip rs qs))))))"
    if "pos_cols d = pos_cols df" for d
    unfolding position_metrics_def Let_def that qc_def rc_def ..
  have sq: "\<not> list_ex is_Str eq" and sr: "\<not> list_ex is_Str er"
    using ex' by (auto simp: list_ex_iff eq_def er_def)
  have nulls: "\<forall>(x, y) \<in> set (zip (map num_of eq) (map num_of er)). x = None \<or> y = None"
    using ex' by (fastforce simp: zip_map_map num_of_None zip_same eq_def er_def dest: num_of_Some)
  have nulls': "\<forall>(x, y) \<in> set (zip (map num_of er) (map num_of eq)). x = None \<or> y = None"
    using ex' by (fastforce simp: zip_map_map num_of_None zip_same eq_def er_def dest: num_of_Some)
  have cq: "column (df\<lparr>rows := rows df @ extra\<rparr>) qc = column df qc @ eq"
    and cr: "column (df\<lparr>rows := rows df @ extra\<rparr>) rc = column df rc @ er"
    by (simp_all add: column_append_rows eq_def er_def)
  show ?thesis
  proof (cases "to_numeric (column df qc)")
    case (Inl e)
    then show ?thesis
      by (simp add: pm cq cr to_numeric_append [OF sq])
  next
    case q: (Inr qs)
    show ?thesis
    proof (cases "to_numeric (column df rc)")
      case (Inl e)
      then show ?thesis using q
        by (simp add: pm cq cr to_numeric_append [OF sq] to_numeric_append [OF sr])
    next
      case r: (Inr rs)
      have len: "length qs = length rs"
        using to_numeric_length [OF q] to_numeric_length [OF r] by (simp add: column_def)
      have c: "complete_pairs (qs @ map num_of eq) (rs @ map num_of er) = complete_pairs qs rs"
        using complete_pairs_append [OF len] complete_pairs_nulls [OF nulls] by simp
      have p: "notna_values (map (\<lambda>(r, q). series_sub r q) (zip (rs @ map num_of er) (qs @ map num_of eq)))
             = notna_values (map (\<lambda>(r, q). series_sub r q) (zip rs qs))"
        using pos_changes_append [OF len [symmetric] nulls'] .
      show ?thesis using q r
        by (simp add: pm cq cr to_numeric_append [OF sq]
            to_numeric_append [OF sr] series_corr_def c series_mean_def p Let_def)
    qed
  qed
qed

text \<open>
  Claim C4.  The statistics are computed over the rows in which both positions are
  non-null.  Appending rows in which a position is null leaves the result of
  \<open>analyze_qualifying_performance\<close> as it is (sample size, correlation, R squared,
  mean and standard deviation of the position change), and leaves the correlation, its
  square and the mean position change of the dashboard's \<open>calculate_metrics\<close> as they
  are, for a table that is not empty.
\<close>

theorem statistics_ignore_null_positions:
  assumes "\<forall>r \<in> set extra. quali_position r = None \<or> race_position r = None"
    and "\<not> frame_empty fr"
    and "\<forall>row \<in> set extra_rows.
            (cell_of row (pos_cols fr ! 0) = NaN \<or> cell_of row (pos_cols fr ! 1) = NaN)
          \<and> \<not> is_Str (cell_of row (pos_cols fr ! 0)) \<and> \<not> is_Str (cell_of row (pos_cols fr ! 1))"
  shows "analyze_qualifying_performance (df @ extra) = analyze_qualifying_performance df
     \<and> map_sum id (\<lambda>m. (m ''qualifying_correlation'', m ''r_squared'', m ''avg_position_change''))
           (calculate_metrics (Some (fr\<lparr>rows := rows fr @ extra_rows\<rparr>)))
       = map_sum id (\<lambda>m. (m ''qualifying_correlation'', m ''r_squared'', m ''avg_position_change''))
           (calculate_metrics (Some fr))"
proof -
  have a: "analyze_qualifying_performance (df @ extra) = analyze_qualifying_performance df"
    using dropna_positions_append_nulls [OF assms(1)]
    by (simp add: analyze_qualifying_performance_def)
  let ?fr' = "fr\<lparr>rows := rows fr @ extra_rows\<rparr>"
  let ?view = "\<lambda>m :: string \<rightharpoonup> real option. (m ''qualifying_correlation'', m ''r_squared'', m ''avg_position_change'')"
  have ne: "\<not> frame_empty ?fr'"
    using assms(2) by (simp add: frame_empty_def)
  have late: "?view (m(''total_records'' \<mapsto> v)) = ?view m"
    "?view (m(''total_teams'' \<mapsto> v)) = ?view m" for m v
    by simp_all
  have cm: "map_sum id ?view (calculate_metrics (Some d)) =
      (if length (pos_cols d) \<ge> 2 then map_sum id ?view (position_metrics d Map.empty)
       else Inr (None, None, None))" if "\<not> frame_empty d" for d
    using that
    by (cases "position_metrics d Map.empty")
       (simp_all add: calculate_metrics_def Let_def)
  show ?thesis
    using a position_metrics_append [OF assms(3), of Map.empty]
    by (simp add: cm [OF ne] cm [OF assms(2)])
qed


text \<open>
  Nine complete rows and three rows with a null position: the sample size is 9 and the
  mean position change is 0, with and without the three rows.
\<close>

theorem statistics_ignore_null_positions_witness:
  "list_all (\<lambda>r. quali_position r = None \<or> race_position r = None) sample_null_rows
   \<and> \<not> frame_empty sample_frame
   \<and> list_all (\<lambda>row.
         (cell_of row (pos_cols sample_frame ! 0) = NaN \<or> cell_of row (pos_cols sample_frame ! 1) = NaN)
       \<and> \<not> is_Str (cell_of row (pos_cols sample_frame ! 0))
       \<and> \<not> is_Str (cell_of row (pos_cols sample_frame ! 1))) (map csv_row sample_null_rows)
   \<and> analyze_qualifying_performance (sample_dataset @ sample_null_rows)
       = analyze_qualifying_performance sample_dataset
   \<and> map_option sample_size (fst (analyze_qualifying_performance (sample_dataset @ sample_null_rows)))
       = Some 9
   \<and> map_option mean_position_change
        (fst (analyze_qualifying_performance (sample_dataset @ sample_null_rows))) = Some (Some 0)
   \<and> map_sum id (\<lambda>m. (m ''qualifying_correlation'', m ''r_squared'', m ''avg_position_change''))
        (calculate_metrics (Some (sample_frame\<lparr>rows := rows sample_frame @ map csv_row sample_null_rows\<rparr>)))
     = map_sum id (\<lambda>m. (m ''qualifying_correlation'', m ''r_squared'', m ''avg_position_change''))
        (calculate_metrics (Some sample_frame))"
proof -
  have h1: "\<forall>r \<in> set sample_null_rows. quali_position r = None \<or> race_position r = None"
    by (simp add: sample_null_rows_def sample_row_def)
  have h2: "\<not> frame_empty sample_frame"
    by (simp add: frame_empty_def sample_frame_def sample_dataset_def)
  have pc: "pos_cols sample_frame = [''quali_position'', ''race_position'', ''position_change'']"
    by (simp add: pos_cols_def sample_frame_def py_lower_def)
  have h3: "\<forall>row \<in> set (map csv_row sample_null_rows).
         (cell_of row (pos_cols sample_frame ! 0) = NaN \<or> cell_of row (pos_cols sample_frame ! 1) = NaN)
       \<and> \<not> is_Str (cell_of row (pos_cols sample_frame ! 0))
       \<and> \<not> is_Str (cell_of row (pos_cols sample_frame ! 1))"
    unfolding pc by (simp add: sample_null_rows_def sample_row_def csv_row_def cell_of_def)
  note t = statistics_ignore_null_positions [OF h1 h2 h3, of sample_dataset]
  have n: "map_option sample_size (fst (analyze_qualifying_performance sample_dataset)) = Some 9"
    by (simp add: analyze_qualifying_performance_def dropna_positions_def sample_dataset_def
        sample_row_def Let_def)
  have m: "map_option mean_position_change (fst (analyze_qualifying_performance sample_dataset))
       = Some (Some 0)"
    by (simp add: analyze_qualifying_performance_def dropna_positions_def sample_dataset_def
        sample_row_def Let_def series_mean_def notna_values_def series_sub_def mean_def)
  from t h1 h2 h3 n m show ?thesis unfolding list_all_iff by simp
qed

section \<open>Team averages and the overall correlation\<close>

lemma set_notna_values: "set (notna_values s) = {v. Some v \<in> set s}"
  by (induction s) (auto simp: notna_values_def split: option.splits)

lemma map_of_tabulate: "map_of (map (\<lambda>k. (k, f k)) ks) t = (if t \<in> set ks then Some (f t) else None)"
  by (induction ks) auto

lemma set_sort_values: "set (sort_values s) = set s"
  by (auto simp: sort_values_def)

lemma distinct_sort_values:
  assumes "distinct (map fst s)"
  shows "distinct (map fst (sort_values s))"
proof -
  from assms have d: "distinct s" and i: "inj_on fst (set s)"
    by (simp_all add: distinct_map)
  have "distinct (sort_values s)"
    using d by (auto simp: sort_values_def)
  moreover have "inj_on fst (set (sort_values s))"
    using i by (simp only: set_sort_values)
  ultimately show ?thesis by (simp add: distinct_map)
qed

lemma map_of_sort_values:
  assumes "distinct (map fst s)"
  shows "map_of (sort_values s) = map_of s"
  using assms distinct_sort_values [OF assms] set_sort_values [of s]
  by (simp add: map_of_inject_set)

lemma map_of_team_performance:
  "map_of (team_performance df) t =
     (if Some t \<in> set (map team df)
      then Some (series_mean (map quali_position (filter (\<lambda>r. team r = Some t) df)))
      else None)"
proof -
  have d: "distinct (map fst (groupby_team_mean df))"
    by (simp add: groupby_team_mean_def comp_def)
  show ?thesis
    unfolding team_performance_def map_of_sort_values [OF d]
    by (simp add: groupby_team_mean_def map_of_tabulate set_notna_values)
qed

lemma sum_zip_same:
  "sum_list (map (\<lambda>(x, y). (x - m) * (y - m)) (zip xs xs)) = sum_list (map (\<lambda>x. (x - (m::real)) ^ 2) xs)"
  by (induction xs) (simp_all add: power2_eq_square)

lemma np_cov_self:
  "np_cov xs xs = sum_list (map (\<lambda>x. (x - mean xs) ^ 2) xs) / (real (length xs) - 1)"
  by (simp add: np_cov_def sum_zip_same)

lemma sum_squares_short:
  "length xs < 2 \<Longrightarrow> sum_list (map (\<lambda>x. (x - mean xs) ^ 2) xs) = 0"
proof (cases xs)
  case Nil then show ?thesis by simp
next
  case (Cons x ys)
  assume "length xs < 2"
  with Cons have "ys = []" by (cases ys) simp_all
  with Cons show ?thesis by (simp add: mean_def)
qed

lemma sum_squares_nonneg: "0 \<le> sum_list (map (\<lambda>x. (x - (m::real)) ^ 2) xs)"
  by (induction xs) simp_all

lemma normalised_quotient:
  fixes k :: real
  assumes "0 < k" "0 \<le> a" "0 \<le> b" "a \<noteq> 0" "b \<noteq> 0"
  shows "c / k / sqrt (a / k) / sqrt (b / k) = c / sqrt (a * b)"
proof -
  have k: "sqrt k * sqrt k = k" using assms(1) by simp
  have "c / k / sqrt (a / k) / sqrt (b / k) = c * (sqrt k * sqrt k) / (k * (sqrt a * sqrt b))"
    using assms by (simp add: real_sqrt_divide field_simps)
  also have "\<dots> = c / (sqrt a * sqrt b)"
    unfolding k using assms(1) by simp
  finally show ?thesis by (simp add: real_sqrt_mult)
qed

lemma np_corrcoef_pearson: "np_corrcoef ps = pearson_direct ps"
proof (cases "length ps < 2")
  case True
  then have "sum_list (map (\<lambda>x. (x - mean (map fst ps)) ^ 2) (map fst ps)) = 0"
    using sum_squares_short [of "map fst ps"] by simp
  with True show ?thesis
    by (simp add: np_corrcoef_def pearson_direct_def Let_def)
next
  case False
  define k where "k = real (length ps) - 1"
  have k: "0 < k" using False by (simp add: k_def)
  define xs where "xs = map fst ps"
  define ys where "ys = map snd ps"
  define sxx where "sxx = sum_list (map (\<lambda>x. (x - mean xs) ^ 2) xs)"
  define syy where "syy = sum_list (map (\<lambda>y. (y - mean ys) ^ 2) ys)"
  define sxy where "sxy = sum_list (map (\<lambda>(x, y). (x - mean xs) * (y - mean ys)) ps)"
  have cxx: "np_cov xs xs = sxx / k" and cyy: "np_cov ys ys = syy / k"
    by (simp_all add: np_cov_self sxx_def syy_def k_def xs_def ys_def)
  have cxy: "np_cov xs ys = sxy / k"
    by (simp add: np_cov_def sxy_def k_def xs_def ys_def zip_map_fst_snd)
  have nn: "0 \<le> sxx" "0 \<le> syy"
    by (simp_all add: sxx_def syy_def sum_squares_nonneg)
  have z: "sxx / k = 0 \<longleftrightarrow> sxx = 0" "syy / k = 0 \<longleftrightarrow> syy = 0"
    using k by simp_all
  have np: "np_corrcoef ps =
      (if sxx = 0 \<or> syy = 0 then None else Some (sxy / k / sqrt (sxx / k) / sqrt (syy / k)))"
    using False unfolding np_corrcoef_def Let_def xs_def [symmetric] ys_def [symmetric] cxx cyy cxy z
    by simp
  have pd: "pearson_direct ps = (if sxx = 0 \<or> syy = 0 then None else Some (sxy / sqrt (sxx * syy)))"
    unfolding pearson_direct_def Let_def xs_def [symmetric] ys_def [symmetric]
      sxx_def [symmetric] syy_def [symmetric] sxy_def [symmetric] ..
  show ?thesis
    unfolding np pd using normalised_quotient [OF k nn] by simp
qed

lemma position_pairs_concat_map:
  "position_pairs df =
     concat (map (\<lambda>r. case quali_position r of None \<Rightarrow> []
                       | Some u \<Rightarrow> (case race_position r of None \<Rightarrow> [] | Some v \<Rightarrow> [(u, v)])) df)"
  by (induction df) (simp_all add: position_pairs_def complete_pairs_def)

lemma position_pairs_append: "position_pairs (a @ b) = position_pairs a @ position_pairs b"
  by (simp add: position_pairs_concat_map)

lemma position_pairs_concat: "position_pairs (concat dfs) = concat (map position_pairs dfs)"
  by (induction dfs) (simp_all add: position_pairs_append, simp add: position_pairs_def complete_pairs_def)

lemma position_pairs_dropna: "position_pairs (dropna_positions df) = position_pairs df"
  by (induction df) (auto simp add: position_pairs_concat_map dropna_positions_def split: option.splits)

lemma length_dropna_positions: "length (dropna_positions df) = length (position_pairs df)"
  by (induction df) (auto simp add: position_pairs_concat_map dropna_positions_def split: option.splits)

text \<open>
  Claim C8.  The grouped summary gives, for every team of the data set, the arithmetic
  mean of the known qualifying positions of the rows of that team (NaN when there is
  none).  The correlation of a data set that is the concatenation of several tables is
  the Pearson coefficient of the concatenated position pairs of these tables.
\<close>

theorem grouped_means_and_overall_correlation:
  "(Some t \<in> set (map team df) \<longrightarrow>
       map_of (team_performance df) t =
         Some (if team_quali_positions df t = [] then None
               else Some (sum_list (team_quali_positions df t)
                          / real (length (team_quali_positions df t)))))
   \<and> (case fst (analyze_qualifying_performance (concat dfs)) of
        None \<Rightarrow> concat (map position_pairs dfs) = []
      | Some st \<Rightarrow> correlation st = pearson_direct (concat (map position_pairs dfs)))"
proof -
  have a: "map_of (team_performance df) t =
         Some (if team_quali_positions df t = [] then None
               else Some (sum_list (team_quali_positions df t)
                          / real (length (team_quali_positions df t))))"
    if "Some t \<in> set (map team df)"
    using that
    by (simp add: map_of_team_performance series_mean_def team_quali_positions_def mean_def Let_def)
  let ?clean = "dropna_positions (concat dfs)"
  have pp: "position_pairs ?clean = concat (map position_pairs dfs)"
    by (simp only: position_pairs_dropna position_pairs_concat)
  have len: "length ?clean = length (concat (map position_pairs dfs))"
    by (simp only: length_dropna_positions position_pairs_concat)
  have corr: "series_corr (map quali_position ?clean) (map race_position ?clean)
      = pearson_direct (concat (map position_pairs dfs))" if "?clean \<noteq> []"
  proof -
    from that len have "concat (map position_pairs dfs) \<noteq> []"
      by (metis length_0_conv)
    then show ?thesis
      unfolding series_corr_def position_pairs_def [symmetric] pp Let_def
      by (auto simp add: np_corrcoef_pearson)
  qed
  have b: "(case fst (analyze_qualifying_performance (concat dfs)) of
        None \<Rightarrow> concat (map position_pairs dfs) = []
      | Some st \<Rightarrow> correlation st = pearson_direct (concat (map position_pairs dfs)))"
  proof (cases "?clean = []")
    case True
    with len show ?thesis by (simp add: analyze_qualifying_performance_def)
  next
    case False
    with corr show ?thesis by (simp add: analyze_qualifying_performance_def Let_def)
  qed
  from a b show ?thesis by blast
qed

text \<open>
  Three teams with the qualifying positions 1 2 3, 4 5 6 and 7 8 9 have the means 2, 5
  and 8; the correlation of the nine complete rows followed by three incomplete rows is
  the Pearson coefficient of the nine pairs, which is 11/12.
\<close>

theorem grouped_means_and_overall_correlation_witness:
  "Some ''Alpha'' \<in> set (map team sample_dataset)
   \<and> Some ''Beta'' \<in> set (map team sample_dataset)
   \<and> Some ''Gamma'' \<in> set (map team sample_dataset)
   \<and> map_of (team_performance sample_dataset) ''Alpha'' = Some (Some 2)
   \<and> map_of (team_performance sample_dataset) ''Beta'' = Some (Some 5)
   \<and> map_of (team_performance sample_dataset) ''Gamma'' = Some (Some 8)
   \<and> map_option correlation
        (fst (analyze_qualifying_performance (concat [sample_dataset, sample_null_rows])))
       = Some (pearson_direct (concat (map position_pairs [sample_dataset, sample_null_rows])))
   \<and> pearson_direct (concat (map position_pairs [sample_dataset, sample_null_rows]))
       = Some (11 / 12)"
proof -
  have ta: "Some ''Alpha'' \<in> set (map team sample_dataset)"
    and tb: "Some ''Beta'' \<in> set (map team sample_dataset)"
    and tc: "Some ''Gamma'' \<in> set (map team sample_dataset)"
    by (simp_all add: sample_dataset_def sample_row_def)
  have qa: "team_quali_positions sample_dataset ''Alpha'' = [1, 2, 3]"
    and qb: "team_quali_positions sample_dataset ''Beta'' = [4, 5, 6]"
    and qc: "team_quali_positions sample_dataset ''Gamma'' = [7, 8, 9]"
    by (simp_all add: team_quali_positions_def sample_dataset_def sample_row_def notna_values_def)
  have pairs: "concat (map position_pairs [sample_dataset, sample_null_rows])
      = [(1, 2), (2, 1), (3, 3), (4, 5), (5, 4), (6, 6), (7, 9), (8, 7), (9, 8)]"
    by (simp add: position_pairs_def complete_pairs_def sample_dataset_def sample_null_rows_def
        sample_row_def)
  have s: "sqrt 3600 = (60::real)"
    by (rule real_sqrt_unique) simp_all
  have pd: "pearson_direct (concat (map position_pairs [sample_dataset, sample_null_rows]))
      = Some (11 / 12)"
    unfolding pairs by (simp add: pearson_direct_def mean_def s)
  note a = grouped_means_and_overall_correlation
      [of "''Alpha''" sample_dataset "[sample_dataset, sample_null_rows]"]
  note b = grouped_means_and_overall_correlation
      [of "''Beta''" sample_dataset "[sample_dataset, sample_null_rows]"]
  note c = grouped_means_and_overall_correlation
      [of "''Gamma''" sample_dataset "[sample_dataset, sample_null_rows]"]
  have ma: "map_of (team_performance sample_dataset) ''Alpha'' = Some (Some 2)"
    using a ta by (simp add: qa)
  have mb: "map_of (team_performance sample_dataset) ''Beta'' = Some (Some 5)"
    using b tb by (simp add: qb)
  have mc: "map_of (team_performance sample_dataset) ''Gamma'' = Some (Some 8)"
    using c tc by (simp add: qc)
  have co: "map_option correlation
        (fst (analyze_qualifying_performance (concat [sample_dataset, sample_null_rows])))
       = Some (pearson_direct (concat (map position_pairs [sample_dataset, sample_null_rows])))"
  proof (cases "fst (analyze_qualifying_performance (concat [sample_dataset, sample_null_rows]))")
    case None
    with a have "concat (map position_pairs [sample_dataset, sample_null_rows]) = []"
      by simp
    with pairs show ?thesis by simp
  next
    case (Some st)
    with a show ?thesis by simp
  qed
  from ta tb tc ma mb mc co pd show ?thesis by simp
qed

section \<open>Position change\<close>

lemma position_change_combined:
  "create_combined_dataframe (Some rd) = Some combined \<Longrightarrow> row \<in> set combined \<Longrightarrow>
   position_change row = series_sub (race_position row) (quali_position row)"
  by (auto simp add: create_combined_dataframe_def add_columns_def)

lemma series_sub_values:
  "series_sub (Some r) (Some q) = Some (r - q)" "series_sub None b = None" "series_sub a None = None"
  by (simp_all add: series_sub_def split: option.splits)

text \<open>
  Claim C3 is right about \<open>create_combined_dataframe\<close>, whose column
  \<open>position_change\<close> is race position minus qualifying position, and fails on
  \<open>analyze_sample_data\<close>, which computes qualifying position minus race position.  For
  the driver who qualified third and finished seventh the first gives 4 and the second
  -4; for the driver who qualified seventh and finished second they give -5 and 5.
\<close>

theorem position_change_sign_differs:
  "map (\<lambda>row. (driver row, position_change row))
       (the (create_combined_dataframe (Some sample_weekend)))
     = [(''HAM'', Some (- 5)), (''VER'', Some 4)]
   \<and> map (\<lambda>row. (Driver row, PositionChange row))
       (the (analyze_sample_data (Some sample_grid) (Some sample_finish)))
     = [(''VER'', Some (- 4)), (''HAM'', Some 5)]"
  by (simp add: sample_weekend_def sample_grid_def sample_finish_def create_combined_dataframe_def
      make_quali_df_def make_race_df_def quali_time_column_def fillna_def merge_outer_def
      left_part_def right_part_def left_only_def right_only_def both_sides_def add_columns_def
      series_sub_def analyze_sample_data_def merge_inner_def)

section \<open>Charts and missing columns\<close>

lemma qualifying_chart_missing_columns:
  "''quali_time'' \<notin> set (columns df) \<or> ''team'' \<notin> set (columns df) \<Longrightarrow>
   create_qualifying_chart pyfloat df =
     \<lparr>warnings = [''Missing qualifying time or team data''], returned = Inr None\<rparr>"
  by (simp add: create_qualifying_chart_def)

lemma weather_chart_missing_columns:
  "weather_cols df = [] \<or> pos_cols df = [] \<Longrightarrow>
   create_weather_chart df = \<lparr>warnings = [''No weather data found''], returned = Inr None\<rparr>"
  by (simp add: create_weather_chart_def)

lemma histogram_missing_columns:
  "length (pos_cols df) < 2 \<Longrightarrow>
   create_position_change_histogram df = \<lparr>warnings = [], returned = Inr None\<rparr>"
  by (simp add: create_position_change_histogram_def)

lemma team_chart_missing_columns:
  "pos_cols df = [] \<or> team_cols df = [] \<Longrightarrow>
   create_team_performance_chart df = \<lparr>warnings = [], returned = Inr None\<rparr>"
  by (simp add: create_team_performance_chart_def)

lemma qualifying_chart_without_driver:
  "returned (create_qualifying_chart decimal_float (sample_times\<lparr>columns := [''team'', ''quali_time'']\<rparr>))
   = Inl ValueError"
  by code_simp

text \<open>
  Claim C9 fails on two of the chart functions.  On a table without position and team
  columns, \<open>create_position_change_histogram\<close> and \<open>create_team_performance_chart\<close>
  return \<open>None\<close> and show no warning.
\<close>

theorem charts_skipped_without_warning:
  "pos_cols sample_no_positions = [] \<and> team_cols sample_no_positions = []
   \<and> create_position_change_histogram sample_no_positions = \<lparr>warnings = [], returned = Inr None\<rparr>
   \<and> create_team_performance_chart sample_no_positions = \<lparr>warnings = [], returned = Inr None\<rparr>"
  by code_simp

section \<open>Conversion of qualifying times\<close>

lemma starts_with_hd: "starts_with s (p # ps) \<Longrightarrow> p \<in> set s"
  by (cases s) simp_all

lemma str_contains_hd: "str_contains s (p # ps) \<Longrightarrow> p \<in> set s"
  by (induction s) (auto dest: starts_with_hd)

lemma split_ws_nonempty:
  "cur \<noteq> [] \<or> (\<exists>c \<in> set s. \<not> is_space c) \<Longrightarrow> split_ws s cur \<noteq> []"
  by (induction s arbitrary: cur) auto

lemma py_split_days: "str_contains s ''days'' \<Longrightarrow> py_split s \<noteq> []"
proof -
  assume "str_contains s ''days''"
  then have "CHR ''d'' \<in> set s" by (rule str_contains_hd)
  moreover have "\<not> is_space CHR ''d''" by (simp add: is_space_def)
  ultimately show ?thesis unfolding py_split_def by (intro split_ws_nonempty) blast
qed

lemma time_to_seconds_Str:
  "time_to_seconds pyfloat (Str s) =
     (let time_bits = py_split_on CHR '':'' (last (py_split s)) in
      if str_contains s ''days'' \<and> length time_bits = 3 then
        (case pyfloat (time_bits ! 1) of
           None \<Rightarrow> None
         | Some mins \<Rightarrow>
             (case pyfloat (time_bits ! 2) of None \<Rightarrow> None | Some secs \<Rightarrow> Some (mins * 60 + secs)))
      else pyfloat s)"
  by (auto simp add: time_to_seconds_def time_to_seconds_body_def Let_def py_split_days
      split: option.splits)

lemma time_to_seconds_body_no_IndexError: "time_to_seconds_body pyfloat v \<noteq> Inl IndexError"
  by (cases v) (auto simp add: time_to_seconds_body_def Let_def py_split_days split: option.splits)

lemma map_snd_converted:
  "map snd (concat (map (\<lambda>row. case f row of None \<Rightarrow> [] | Some s \<Rightarrow> [(row, s)]) xs))
   = concat (map (\<lambda>row. case f row of None \<Rightarrow> [] | Some s \<Rightarrow> [s]) xs)"
  by (induction xs) (simp_all split: option.splits)

lemma map_snd_quali_seconds:
  "map snd (quali_seconds pyfloat d) =
     concat (map (\<lambda>row. case time_to_seconds pyfloat (cell_of row ''quali_time'') of
                           None \<Rightarrow> [] | Some s \<Rightarrow> [s]) (rows d))"
  unfolding quali_seconds_def by (rule map_snd_converted)

text \<open>
  Claim C10.  \<open>time_to_seconds\<close> returns for every cell: the index error of
  \<open>parts[-1]\<close> cannot happen, every other exception of the body is turned into
  \<open>None\<close>.  A number is returned as it is; a string with \<open>days\<close> whose last piece
  has three fields gives minutes times 60 plus seconds when both fields parse, and every
  other string gives what \<open>float\<close> gives; \<open>None\<close> in all other cases.  The chart
  plots exactly the converted times of the rows that have a time and a team: a row whose
  time gives \<open>None\<close> is dropped and the conversion never makes the chart fail (with a
  column \<open>driver\<close> in the table the chart function returns).
\<close>

theorem time_to_seconds_never_raises:
  "time_to_seconds_body pyfloat v \<noteq> Inl IndexError
   \<and> time_to_seconds pyfloat (Num r) = Some r
   \<and> time_to_seconds pyfloat (Str s) =
       (let time_bits = py_split_on CHR '':'' (last (py_split s)) in
        if str_contains s ''days'' \<and> length time_bits = 3 then
          (case pyfloat (time_bits ! 1) of
             None \<Rightarrow> None
           | Some mins \<Rightarrow>
               (case pyfloat (time_bits ! 2) of
                  None \<Rightarrow> None
                | Some secs \<Rightarrow> Some (mins * 60 + secs)))
        else pyfloat s)
   \<and> (''driver'' \<in> set (columns df) \<longrightarrow>
        (\<exists>fig. returned (create_qualifying_chart pyfloat df) = Inr fig))
   \<and> (returned (create_qualifying_chart pyfloat df) = Inr (Some (Scatter pts)) \<longrightarrow>
        map fst pts =
          concat (map (\<lambda>row. case time_to_seconds pyfloat (cell_of row ''quali_time'') of
                                None \<Rightarrow> [] | Some x \<Rightarrow> [x])
                      (rows (dropna [''quali_time'', ''team''] df))))"
proof -
  have n: "time_to_seconds pyfloat (Num r) = Some r"
    by (simp add: time_to_seconds_def time_to_seconds_body_def)
  have c: "\<exists>fig. returned (create_qualifying_chart pyfloat df) = Inr fig"
    if "''driver'' \<in> set (columns df)"
    using that by (simp add: create_qualifying_chart_def Let_def)
  have p: "map fst pts =
          concat (map (\<lambda>row. case time_to_seconds pyfloat (cell_of row ''quali_time'') of
                                None \<Rightarrow> [] | Some x \<Rightarrow> [x])
                      (rows (dropna [''quali_time'', ''team''] df)))"
    if "returned (create_qualifying_chart pyfloat df) = Inr (Some (Scatter pts))"
  proof -
    from that have "pts = map (\<lambda>(row, s). (s, cell_of row ''team''))
        (quali_seconds pyfloat (dropna [''quali_time'', ''team''] df))"
      by (simp add: create_qualifying_chart_def Let_def split: if_splits)
    then have "map fst pts = map snd (quali_seconds pyfloat (dropna [''quali_time'', ''team''] df))"
      by (simp add: comp_def case_prod_unfold)
    then show ?thesis by (simp only: map_snd_quali_seconds)
  qed
  from time_to_seconds_body_no_IndexError n time_to_seconds_Str c p show ?thesis
    by blast
qed

text \<open>
  Four rows: the time stamp \<open>0 days 00:01:29.5\<close> is 89.5 seconds, the number 90.1
  stays, the text \<open>no time set\<close> and the null cell are dropped, and the chart has two
  points.
\<close>

theorem time_to_seconds_never_raises_witness:
  "time_to_seconds decimal_float (Num (901 / 10)) = Some (901 / 10)
   \<and> time_to_seconds decimal_float (Str ''0 days 00:01:29.5'') = Some (179 / 2)
   \<and> time_to_seconds decimal_float (Str ''no time set'') = None
   \<and> ''driver'' \<in> set (columns sample_times)
   \<and> create_qualifying_chart decimal_float sample_times =
       \<lparr>warnings = [],
        returned = Inr (Some (Scatter [(179 / 2, Str ''Ferrari''), (901 / 10, Str ''McLaren'')]))\<rparr>
   \<and> concat (map (\<lambda>row. case time_to_seconds decimal_float (cell_of row ''quali_time'') of
                                None \<Rightarrow> [] | Some x \<Rightarrow> [x])
                      (rows (dropna [''quali_time'', ''team''] sample_times)))
       = [179 / 2, 901 / 10]"
proof -
  note t = time_to_seconds_never_raises [of decimal_float "Num (901 / 10)" "901 / 10"
      "''0 days 00:01:29.5''" sample_times "[(179 / 2, Str ''Ferrari''), (901 / 10, Str ''McLaren'')]"]
  have a: "time_to_seconds decimal_float (Num (901 / 10)) = Some (901 / 10)"
    using t by blast
  have b: "time_to_seconds decimal_float (Str ''0 days 00:01:29.5'') = Some (179 / 2)"
    by code_simp
  have c: "time_to_seconds decimal_float (Str ''no time set'') = None"
    by code_simp
  have d: "''driver'' \<in> set (columns sample_times)"
    by (simp add: sample_times_def)
  have e: "create_qualifying_chart decimal_float sample_times =
       \<lparr>warnings = [],
        returned = Inr (Some (Scatter [(179 / 2, Str ''Ferrari''), (901 / 10, Str ''McLaren'')]))\<rparr>"
    by code_simp
  have f: "concat (map (\<lambda>row. case time_to_seconds decimal_float (cell_of row ''quali_time'') of
                                None \<Rightarrow> [] | Some x \<Rightarrow> [x])
                      (rows (dropna [''quali_time'', ''team''] sample_times)))
       = [179 / 2, 901 / 10]"
    using t e by simp
  from a b c d e f show ?thesis by blast
qed


end
